theory Spec2Isabelle
  imports Complex_Main "HOL-Library.Multiset"
begin

section \<open>Python values and exceptions\<close>

text \<open>
  The notebook is Python. An exception is a value of \<open>error\<close>; a function that can raise
  returns \<open>error + 'a\<close> with \<open>Inl\<close> for the exception. Python floats are modelled by the
  reals, Python ints by \<open>int\<close>.
\<close>

datatype error =
    ValueError string
  | TypeError
  | ZeroDivisionError
  | OverflowError
  | AttributeError
  | IndexError
  | FileExistsError
  | FileNotFoundError
  | NotADirectoryError
  | IsADirectoryError
  | OSError
  | InvalidArgumentError

text \<open>\<open>collect\<close> runs a list of computations in order and stops at the first one that raises.\<close>

fun collect :: "(error + 'a) list \<Rightarrow> error + 'a list" where
  "collect [] = Inr []"
| "collect (r # rs) =
     (case r of
        Inl e \<Rightarrow> Inl e
      | Inr v \<Rightarrow> (case collect rs of Inl e \<Rightarrow> Inl e | Inr vs \<Rightarrow> Inr (v # vs)))"

text \<open>\<open>str.lower()\<close> on ASCII text.\<close>

definition lower_char :: "char \<Rightarrow> char" where
  "lower_char c =
     (case map_of (zip ''ABCDEFGHIJKLMNOPQRSTUVWXYZ'' ''abcdefghijklmnopqrstuvwxyz'') c of
        Some d \<Rightarrow> d
      | None \<Rightarrow> c)"

definition lower :: "string \<Rightarrow> string" where
  "lower s = map lower_char s"

section \<open>SignalFilter\<close>

text \<open>
  A batch \<open>X\<close> is an array of shape (batch, channel, time): a list of records, each a list
  of channels, each a list of samples. The sample type \<open>'a\<close> carries only a multiplication,
  with no law assumed of it, so what is proved of \<open>filt\<close> holds for any arithmetic.

  \<open>scaling\<close> is a Python float, an ndarray of shape (channels, 1) as in the configuration's
  comment (\<open>np.array([...]).reshape(-1, 1)\<close>), or the nested list \<open>[[s0], [s1], ...]\<close> that
  \<open>tolist()\<close> makes of such an array. \<open>filter_window\<close> is the float \<open>1.\<close> or the
  one-dimensional array \<open>signal.tukey(4096, 0.1)\<close>.
\<close>

datatype 'a scaling = PyFloat 'a | NdArray "'a list" | PyList "'a list"

datatype 'a window = WScalar 'a | WArray "'a list"

datatype Wn = Single real | Band real real

record ('a, 'sos) SignalFilter =
  self_scaling :: "'a scaling"
  self_filter_window :: "'a window"
  self_filter_norm :: 'a
  self_filter :: 'sos

text \<open>
  The routines of scipy and numpy that \<open>__init__\<close> calls are not code of the notebook; they
  are parameters: \<open>tukey\<close> is \<open>signal.tukey\<close>, \<open>butter\<close> is \<open>signal.butter\<close> with
  \<open>output='sos'\<close> (it validates its arguments and may raise), \<open>np_sqrt\<close> is \<open>np.sqrt\<close>
  (which returns nan, not an exception, on a negative number).
\<close>

record 'sos signal_lib =
  tukey :: "nat \<Rightarrow> real \<Rightarrow> real list"
  butter :: "int \<Rightarrow> Wn \<Rightarrow> string \<Rightarrow> int \<Rightarrow> error + 'sos"
  np_sqrt :: "real \<Rightarrow> real"

text \<open>
  \<open>n / 2\<close> on a Python int \<open>n\<close> rounds the quotient to the nearest double and raises
  OverflowError when that is beyond the largest double, which is when the quotient is
  \<open>2 ^ 1024 - 2 ^ 970\<close> or more in absolute value.
\<close>

definition half_overflows :: "int \<Rightarrow> bool" where
  "half_overflows n \<longleftrightarrow> 2 * (2 ^ 1024 - 2 ^ 970) \<le> \<bar>n\<bar>"

text \<open>
  \<open>SignalFilter.__init__\<close>; \<open>f_lo\<close> and \<open>f_hi\<close> are floats, as annotated, and
  \<open>sampling_rate\<close> is an int. In the bandpass branch the operands of
  \<open>(f_hi - f_lo) / (sampling_rate / 2)\<close> are evaluated from the left: with \<open>f_hi = None\<close>
  the subtraction raises TypeError; then \<open>sampling_rate / 2\<close> raises OverflowError for an
  int beyond the range of the floats; then the float division raises ZeroDivisionError when
  \<open>sampling_rate = 0\<close>. \<open>butter\<close> receives \<open>filter_type\<close> as given, not lower-cased.
\<close>

definition SignalFilter_init ::
  "'sos signal_lib \<Rightarrow> real scaling \<Rightarrow> string \<Rightarrow> int \<Rightarrow> real \<Rightarrow> real option \<Rightarrow> int
     \<Rightarrow> error + (real, 'sos) SignalFilter" where
  "SignalFilter_init lib scaling filter_type filter_order f_lo f_hi sampling_rate =
     (if lower filter_type = ''bandpass'' then
        (case f_hi of
           None \<Rightarrow> Inl TypeError
         | Some hi \<Rightarrow>
             if half_overflows sampling_rate then Inl OverflowError
             else if sampling_rate = 0 then Inl ZeroDivisionError
             else
               (case butter lib filter_order (Band f_lo hi) filter_type sampling_rate of
                  Inl e \<Rightarrow> Inl e
                | Inr sos \<Rightarrow>
                    Inr \<lparr>self_scaling = scaling,
                         self_filter_window = WArray (tukey lib 4096 (1 / 10)),
                         self_filter_norm =
                           np_sqrt lib ((hi - f_lo) / (real_of_int sampling_rate / 2)),
                         self_filter = sos\<rparr>))
      else if lower filter_type = ''highpass'' then
        (case butter lib filter_order (Single f_lo) filter_type sampling_rate of
           Inl e \<Rightarrow> Inl e
         | Inr sos \<Rightarrow>
             Inr \<lparr>self_scaling = scaling,
                  self_filter_window = WScalar 1,
                  self_filter_norm = 1,
                  self_filter = sos\<rparr>)
      else Inl (ValueError ''Unknown filter type.''))"

text \<open>
  numpy broadcasting along one axis: the two lengths are equal, or one of them is 1 and is
  stretched; anything else raises ValueError.
\<close>

definition broadcast :: "('a \<Rightarrow> 'b \<Rightarrow> 'c) \<Rightarrow> 'a list \<Rightarrow> 'b list \<Rightarrow> error + 'c list" where
  "broadcast f xs ys =
     (if length xs = length ys then Inr (map2 f xs ys)
      else if length xs = 1 then Inr (map (f (hd xs)) ys)
      else if length ys = 1 then Inr (map (\<lambda>x. f x (hd ys)) xs)
      else Inl (ValueError ''operands could not be broadcast together''))"

text \<open>
  \<open>self.scaling * X\<close>. A float multiplies every sample. An array of shape (C, 1), or the
  nested list of that shape, is aligned with the last two axes of \<open>X\<close>: the channel axis
  is broadcast, and the only entry of a row multiplies the whole time axis.
\<close>

fun mul_scaling :: "'a::times scaling \<Rightarrow> 'a list list list \<Rightarrow> error + 'a list list list" where
  "mul_scaling (PyFloat c) X = Inr (map (map (map (\<lambda>x. c * x))) X)"
| "mul_scaling (NdArray cs) X =
     collect (map (\<lambda>record. broadcast (\<lambda>c channel. map (\<lambda>x. c * x) channel) cs record) X)"
| "mul_scaling (PyList cs) X =
     collect (map (\<lambda>record. broadcast (\<lambda>c channel. map (\<lambda>x. c * x) channel) cs record) X)"

text \<open>\<open>... * self.filter_window\<close>: a float, or an array aligned with the time axis.\<close>

fun mul_window :: "'a::times list list list \<Rightarrow> 'a window \<Rightarrow> error + 'a list list list" where
  "mul_window X (WScalar w) = Inr (map (map (map (\<lambda>x. x * w))) X)"
| "mul_window X (WArray ws) =
     collect (map (\<lambda>record. collect (map (\<lambda>channel. broadcast (*) channel ws) record)) X)"

text \<open>
  \<open>SignalFilter.filt\<close>. \<open>sosfilt\<close> is \<open>signal.sosfilt\<close> on one one-dimensional signal;
  scipy applies it along the last axis (its default \<open>axis=-1\<close>), to every channel of every
  record.
\<close>

definition filt ::
  "('sos \<Rightarrow> 'a list \<Rightarrow> 'a list) \<Rightarrow> ('a::times, 'sos) SignalFilter \<Rightarrow> 'a list list list
     \<Rightarrow> error + 'a list list list" where
  "filt sosfilt self X =
     (case mul_scaling (self_scaling self) X of
        Inl e \<Rightarrow> Inl e
      | Inr X1 \<Rightarrow>
          (case mul_window X1 (self_filter_window self) of
             Inl e \<Rightarrow> Inl e
           | Inr X2 \<Rightarrow>
               Inr (map (map (map (\<lambda>x. x * self_filter_norm self)))
                      (map (map (sosfilt (self_filter self))) X2))))"

subsection \<open>The four steps as the specification words them\<close>

text \<open>
  Step 1 multiplies sample \<open>t\<close> of channel \<open>c\<close> by the scaling factor of channel \<open>c\<close>; step 2
  multiplies it by the taper's weight at time \<open>t\<close>; step 3 filters every channel; step 4
  multiplies by the normalization constant.
\<close>

fun factor :: "'a scaling \<Rightarrow> nat \<Rightarrow> 'a" where
  "factor (PyFloat c) ch = c"
| "factor (NdArray cs) ch = cs ! ch"
| "factor (PyList cs) ch = cs ! ch"

fun weight :: "'a window \<Rightarrow> nat \<Rightarrow> 'a" where
  "weight (WScalar w) t = w"
| "weight (WArray ws) t = ws ! t"

definition step_scale :: "'a::times scaling \<Rightarrow> 'a list list list \<Rightarrow> 'a list list list" where
  "step_scale s X =
     map (\<lambda>record. map (\<lambda>ch. map (\<lambda>x. factor s ch * x) (record ! ch)) [0..<length record]) X"

definition step_taper :: "'a::times window \<Rightarrow> 'a list list list \<Rightarrow> 'a list list list" where
  "step_taper w X =
     map (map (\<lambda>channel. map (\<lambda>t. channel ! t * weight w t) [0..<length channel])) X"

definition step_filter ::
  "('sos \<Rightarrow> 'a list \<Rightarrow> 'a list) \<Rightarrow> 'sos \<Rightarrow> 'a list list list \<Rightarrow> 'a list list list" where
  "step_filter sosfilt sos X = map (map (sosfilt sos)) X"

definition step_normalize :: "'a::times \<Rightarrow> 'a list list list \<Rightarrow> 'a list list list" where
  "step_normalize n X = map (map (map (\<lambda>x. x * n))) X"

definition four_steps ::
  "('sos \<Rightarrow> 'a list \<Rightarrow> 'a list) \<Rightarrow> ('a::times, 'sos) SignalFilter \<Rightarrow> 'a list list list
     \<Rightarrow> 'a list list list" where
  "four_steps sosfilt self X =
     step_normalize (self_filter_norm self)
       (step_filter sosfilt (self_filter self)
          (step_taper (self_filter_window self)
             (step_scale (self_scaling self) X)))"

text \<open>
  The shape a batch must have for the filter: as many channels as the per-channel scaling
  has entries, as many samples as the taper.
\<close>

fun channels_ok :: "'a scaling \<Rightarrow> 'b list \<Rightarrow> bool" where
  "channels_ok (PyFloat c) record = True"
| "channels_ok (NdArray cs) record = (length record = length cs)"
| "channels_ok (PyList cs) record = (length record = length cs)"

fun samples_ok :: "'a window \<Rightarrow> 'b list \<Rightarrow> bool" where
  "samples_ok (WScalar w) channel = True"
| "samples_ok (WArray ws) channel = (length channel = length ws)"

definition shape_ok :: "('a, 'sos) SignalFilter \<Rightarrow> 'b list list list \<Rightarrow> bool" where
  "shape_ok self X =
     list_all (\<lambda>record. channels_ok (self_scaling self) record
                \<and> list_all (samples_ok (self_filter_window self)) record) X"

section \<open>Configuration, paths and files\<close>

text \<open>
  \<open>Config\<close> is a dict with attribute access; the notebook builds one object with the keys
  below. \<open>FilterSpec\<close> is the dict under the key \<open>filter\<close>, whose items are the keyword
  arguments of \<open>SignalFilter\<close>.
\<close>

datatype pyval = PyNum real | PyBool bool

record FilterSpec =
  scaling :: "real scaling"
  filter_type :: string
  filter_order :: int
  f_lo :: real
  f_hi :: "real option"
  sampling_rate :: int

text \<open>
  A path is the list of its components. It stands for \<open>Path(...).expanduser().resolve()\<close>
  and for the string of such a path alike: the working directory is the root, and there
  are no symbolic links and no \<open>..\<close> or \<open>~\<close> components.
\<close>

type_synonym path = "string list"

record Config =
  name :: string
  description :: string
  data_path :: string
  results_parent_path :: string
  results_path :: "path option"
  shuffle_buf_size :: int
  K_fold :: int
  train_folds :: "int list"
  batch_size :: int
  epochs :: int
  warm_start :: bool
  warm_start_model_path :: string
  filter' :: FilterSpec
  lr_schedule :: string
  lr_schedule_paras :: "(string \<times> (string \<times> pyval) list) list"
  optimizer :: string
  optimizer_paras :: "(string \<times> (string \<times> pyval) list) list"
  seed :: int

fun components :: "string \<Rightarrow> string \<Rightarrow> path" where
  "components part [] = [part]"
| "components part (c # cs) =
     (if c = CHR ''/'' then part # components [] cs else components (part @ [c]) cs)"

definition Path :: "string \<Rightarrow> path" where
  "Path s = filter (\<lambda>part. part \<noteq> [] \<and> part \<noteq> ''.'') (components [] s)"

text \<open>\<open>joinpath\<close> starts again from the root when its argument is absolute.\<close>

definition joinpath :: "path \<Rightarrow> string \<Rightarrow> path" where
  "joinpath p s = (if take 1 s = ''/'' then Path s else p @ Path s)"

text \<open>Decimal text of an integer, for the f-strings that name files.\<close>

fun str_nat :: "nat \<Rightarrow> string" where
  "str_nat n =
     (if n < 10 then [''0123456789'' ! n]
      else str_nat (n div 10) @ [''0123456789'' ! (n mod 10)])"

declare str_nat.simps [simp del]

definition str_int :: "int \<Rightarrow> string" where
  "str_int i = (if i < 0 then ''-'' @ str_nat (nat (- i)) else str_nat (nat i))"

text \<open>
  One raw record of a shard file: the bytes of \<open>wave\<close> decoded as 64-bit floats, the
  label (absent in a test shard, or when the feature is missing) and the sample id.
\<close>

record raw_example =
  wave :: "real list"
  target :: "int option"
  wave_id :: string

text \<open>
  What a file holds. A saved model is the file \<open>saved_model.pb\<close> of its checkpoint
  directory; the model type \<open>'m\<close> is opaque.
\<close>

datatype 'm content =
    Pickle Config
  | Json Config
  | SavedModel 'm
  | TFRecords "raw_example list"
  | TrainHistory
  | SampleCsv "string list"
  | SubmissionCsv "(string \<times> real) list"
  | LogFile
  | Empty

datatype 'm node = Dir | File "'m content"

type_synonym 'm fsys = "(path \<times> 'm node) list"

definition is_dir :: "'m fsys \<Rightarrow> path \<Rightarrow> bool" where
  "is_dir fs p = (p = [] \<or> map_of fs p = Some Dir)"

definition exists :: "'m fsys \<Rightarrow> path \<Rightarrow> bool" where
  "exists fs p = (p = [] \<or> map_of fs p \<noteq> None)"

definition is_file :: "'m fsys \<Rightarrow> path \<Rightarrow> bool" where
  "is_file fs p = (p \<noteq> [] \<and> (case map_of fs p of Some (File c) \<Rightarrow> True | _ \<Rightarrow> False))"

definition ancestors :: "path \<Rightarrow> path list" where
  "ancestors p = map (\<lambda>n. take n p) [1..<length p]"

text \<open>\<open>p.mkdir(parents=True, exist_ok=False)\<close>.\<close>

definition mkdir :: "'m fsys \<Rightarrow> path \<Rightarrow> error + 'm fsys" where
  "mkdir fs p =
     (if exists fs p then Inl FileExistsError
      else if list_ex (is_file fs) (ancestors p) then Inl NotADirectoryError
      else Inr (map (\<lambda>a. (a, Dir)) (filter (\<lambda>a. \<not> exists fs a) (ancestors p @ [p])) @ fs))"

text \<open>\<open>p.iterdir()\<close>, consumed: the entries directly under \<open>p\<close>.\<close>

definition iterdir :: "'m fsys \<Rightarrow> path \<Rightarrow> error + path list" where
  "iterdir fs p =
     (if is_dir fs p then Inr (filter (\<lambda>q. q \<noteq> [] \<and> butlast q = p) (map fst fs))
      else if exists fs p then Inl NotADirectoryError
      else Inl FileNotFoundError)"

text \<open>Opening a file for writing and writing it whole (\<open>open(..., 'w')\<close>, \<open>to_csv\<close>, \<open>dump\<close>).\<close>

definition put :: "'m fsys \<Rightarrow> path \<Rightarrow> 'm node \<Rightarrow> 'm fsys" where
  "put fs q n = (q, n) # filter (\<lambda>entry. fst entry \<noteq> q) fs"

definition write_file :: "'m fsys \<Rightarrow> path \<Rightarrow> 'm content \<Rightarrow> error + 'm fsys" where
  "write_file fs q c =
     (if is_dir fs q then Inl IsADirectoryError
      else if \<not> is_dir fs (butlast q) then Inl FileNotFoundError
      else Inr (put fs q (File c)))"

text \<open>
  What the notebook prints or logs, kept as structured events instead of formatted text.
\<close>

datatype event =
    QuitMessage "path option"
  | InvalidResultsPath string
  | LogDescription string
  | LogResultsPath "path option"
  | LogTrainFold int "int list"
  | LogTrainVal "nat list" "nat list"
  | LogFoldScore int real
  | LogOOFScore real
  | LogInference
  | LogInferenceByFold int
  | LogInferenceWritten path

record 'm world =
  files :: "'m fsys"
  printed :: "event list"

text \<open>\<open>ndarray.tolist()\<close>; a float or a list has no such attribute (AttributeError).\<close>

fun tolist :: "'a scaling \<Rightarrow> error + 'a scaling" where
  "tolist (NdArray cs) = Inr (PyList cs)"
| "tolist (PyFloat c) = Inl AttributeError"
| "tolist (PyList cs) = Inl AttributeError"

text \<open>
  The \<open>try\<close> statement of \<open>check_save_config\<close>: \<open>mkdir\<close> raising FileExistsError is
  caught; a non-empty directory then raises ValueError, an empty one is used as it is.
\<close>

definition make_results_directory :: "'m fsys \<Rightarrow> path \<Rightarrow> error + 'm fsys" where
  "make_results_directory fs p =
     (case mkdir fs p of
        Inr fs' \<Rightarrow> Inr fs'
      | Inl e \<Rightarrow>
          if e = FileExistsError then
            (case iterdir fs p of
               Inl e' \<Rightarrow> Inl e'
             | Inr entries \<Rightarrow>
                 if entries \<noteq> [] then Inl (ValueError ''Non-empty results directory.'')
                 else Inr fs)
          else Inl e)"

text \<open>
  \<open>check_save_config\<close>. It assigns \<open>config.results_path\<close> first. \<open>attrs\<close> is a new dict
  with the same values as \<open>config\<close>, so \<open>attrs['filter']\<close> is the very dict
  \<open>config.filter\<close>, and storing the list under \<open>'scaling'\<close> changes \<open>config.filter\<close> as well;
  the pickle is written before that, the JSON after. The function returns the exception
  or \<open>()\<close>, the configuration object as it has become, and the files.
\<close>

definition check_save_config :: "Config \<Rightarrow> 'm world \<Rightarrow> (error + unit) \<times> Config \<times> 'm world" where
  "check_save_config config w =
     (let p = joinpath (Path (results_parent_path config)) (name config);
          config1 = config\<lparr>results_path := Some p\<rparr>
      in case make_results_directory (files w) p of
           Inl e \<Rightarrow> (Inl e, config1, w)
         | Inr fs1 \<Rightarrow>
             (case write_file fs1 (joinpath p ''config.pkl'') (Pickle config1) of
                Inl e \<Rightarrow> (Inl e, config1, w\<lparr>files := fs1\<rparr>)
              | Inr fs2 \<Rightarrow>
                  (case write_file fs2 (joinpath p ''config.json'') Empty of
                     Inl e \<Rightarrow> (Inl e, config1, w\<lparr>files := fs2\<rparr>)
                   | Inr fs3 \<Rightarrow>
                       (let config2 =
                              (case tolist (scaling (filter' config1)) of
                                 Inl e \<Rightarrow> config1
                               | Inr l \<Rightarrow>
                                   config1\<lparr>filter' := (filter' config1)\<lparr>scaling := l\<rparr>\<rparr>)
                        in (Inr (), config2,
                            w\<lparr>files := put fs3 (joinpath p ''config.json'') (File (Json config2))\<rparr>)))))"

section \<open>The libraries\<close>

text \<open>
  What the notebook calls in scipy, numpy, TensorFlow, Keras and scikit-learn is not code
  of the notebook. It enters the model as parameters, gathered in one record:
  \<^item> \<open>scipy\<close>: the routines \<open>__init__\<close> calls; \<open>signal_sosfilt\<close>: \<open>signal.sosfilt\<close> on one
    signal;
  \<^item> \<open>autotune\<close>: the number of files \<open>tf.data.AUTOTUNE\<close> makes \<open>TFRecordDataset\<close> read in
    parallel (the runtime chooses it);
  \<^item> \<open>dataset_shuffle\<close>: the order in which a shuffled, non-deterministic dataset yields
    its records;
  \<^item> \<open>random_shuffle\<close>: the permutation \<open>RandomState(seed).shuffle\<close> applies;
  \<^item> \<open>keras_fit\<close>: building, compiling and fitting the model on the two datasets with the
    checkpoint callback. It gives the best model the callback has saved, if any, and the
    exception that ended the fit, if any;
  \<^item> \<open>model_predict\<close>: the model on one record; \<open>auc_score\<close>: the AUC metric.
\<close>

text \<open>
  A batch is the array \<open>X\<close> with the labels \<open>y\<close>, or with None for test data. A dataset is
  lazy: it is given by what iterating it yields, its batches or the exception raised on
  the way.
\<close>

type_synonym batch = "real list list list \<times> real list option"

type_synonym dataset = "error + batch list"

record ('m, 'sos) libraries =
  scipy :: "'sos signal_lib"
  signal_sosfilt :: "'sos \<Rightarrow> real list \<Rightarrow> real list"
  autotune :: nat
  dataset_shuffle :: "int \<Rightarrow> raw_example list \<Rightarrow> raw_example list"
  random_shuffle :: "int \<Rightarrow> nat list \<Rightarrow> nat list"
  keras_fit :: "Config \<Rightarrow> dataset \<Rightarrow> dataset \<Rightarrow> 'm option \<times> error option"
  model_predict :: "'m \<Rightarrow> real list list \<Rightarrow> real"
  auc_score :: "real list \<Rightarrow> real list \<Rightarrow> real"

section \<open>The dataset builder\<close>

record 'sos Data =
  Data_config :: Config
  Data_train_files :: "string list"
  Data_test_files :: "string list"
  Data_filter :: "(real, 'sos) SignalFilter"

text \<open>\<open>Data.__init__\<close>: the file names and \<open>SignalFilter(**config.filter)\<close>.\<close>

definition Data_init :: "('m, 'sos) libraries \<Rightarrow> Config \<Rightarrow> error + 'sos Data" where
  "Data_init libs config =
     (case SignalFilter_init (scipy libs) (scaling (filter' config)) (filter_type (filter' config))
             (filter_order (filter' config)) (f_lo (filter' config)) (f_hi (filter' config))
             (sampling_rate (filter' config)) of
        Inl e \<Rightarrow> Inl e
      | Inr sf \<Rightarrow>
          Inr \<lparr>Data_config = config,
               Data_train_files =
                 map (\<lambda>i. data_path config @ ''train'' @ str_nat i @ ''.tfrecords'') [0..<20],
               Data_test_files =
                 map (\<lambda>i. data_path config @ ''test'' @ str_nat i @ ''.tfrecords'') [0..<10],
               Data_filter = sf\<rparr>)"

text \<open>
  \<open>_decode_train\<close> and \<open>_decode_test\<close>: the wave reshaped to (3, 4096), the label as a
  float. A wave of another length, or a missing label, is an error of TensorFlow.
\<close>

definition reshape_wave :: "real list \<Rightarrow> error + real list list" where
  "reshape_wave w =
     (if length w = 3 * 4096 then Inr (map (\<lambda>ch. take 4096 (drop (ch * 4096) w)) [0..<3])
      else Inl InvalidArgumentError)"

definition decode_train :: "raw_example \<Rightarrow> error + real list list \<times> real" where
  "decode_train tfrecord =
     (case target tfrecord of
        None \<Rightarrow> Inl InvalidArgumentError
      | Some t \<Rightarrow>
          (case reshape_wave (wave tfrecord) of
             Inl e \<Rightarrow> Inl e
           | Inr X \<Rightarrow> Inr (X, real_of_int t)))"

definition decode_test :: "raw_example \<Rightarrow> error + real list list" where
  "decode_test tfrecord = reshape_wave (wave tfrecord)"

text \<open>
  \<open>_preprocess\<close> on one batch: the filter, then the channel and time axes exchanged
  (\<open>np.transpose(X, axes=(0, 2, 1))\<close>).
\<close>

definition preprocess :: "('m, 'sos) libraries \<Rightarrow> 'sos Data \<Rightarrow> batch \<Rightarrow> error + batch" where
  "preprocess libs self b =
     (case filt (signal_sosfilt libs) (Data_filter self) (fst b) of
        Inl e \<Rightarrow> Inl e
      | Inr X \<Rightarrow> Inr (map transpose X, snd b))"

text \<open>
  The order in which \<open>TFRecordDataset\<close> yields the records of its files when it reads
  \<open>cycle\<close> files in parallel, deterministically: it is tf.data's interleave with block
  length 1. The slots of the cycle are visited in turn, the head of the list being the
  current one. An open slot yields its next record; an exhausted one is emptied; an empty
  one opens the next file and yields from it at once. Once no file is left an empty slot
  stays empty, and is dropped here.
\<close>

function interleave :: "'a list list \<Rightarrow> 'a list option list \<Rightarrow> 'a list" where
  "interleave pending [] = []"
| "interleave pending (Some (x # xs) # slots) = x # interleave pending (slots @ [Some xs])"
| "interleave pending (Some [] # slots) = interleave pending (slots @ [None])"
| "interleave (f # pending) (None # slots) = interleave pending (Some f # slots)"
| "interleave [] (None # slots) = interleave [] slots"
  by pat_completeness auto
termination
  by (relation "measure (\<lambda>(pending, slots).
        3 * (sum_list (map length pending)
             + sum_list (map (\<lambda>s. case s of None \<Rightarrow> 0 | Some xs \<Rightarrow> length xs) slots))
        + 2 * length pending + length (filter (\<lambda>s. s \<noteq> None) slots) + length slots)")
    auto

definition read_records :: "'m fsys \<Rightarrow> string \<Rightarrow> error + raw_example list" where
  "read_records fs file =
     (case map_of fs (Path file) of
        None \<Rightarrow> Inl FileNotFoundError
      | Some Dir \<Rightarrow> Inl InvalidArgumentError
      | Some (File c) \<Rightarrow> (case c of TFRecords rs \<Rightarrow> Inr rs | _ \<Rightarrow> Inl InvalidArgumentError))"

definition TFRecordDataset :: "'m fsys \<Rightarrow> string list \<Rightarrow> nat \<Rightarrow> error + raw_example list" where
  "TFRecordDataset fs filenames num_parallel_reads =
     (case collect (map (read_records fs) filenames) of
        Inl e \<Rightarrow> Inl e
      | Inr shards \<Rightarrow> Inr (interleave shards (replicate num_parallel_reads None)))"

text \<open>\<open>ds.batch(n)\<close>: groups of \<open>n\<close>, the last one shorter when the records run out.\<close>

function batches :: "nat \<Rightarrow> 'a list \<Rightarrow> 'a list list" where
  "batches n xs = (if n = 0 \<or> xs = [] then [] else take n xs # batches n (drop n xs))"
  by pat_completeness auto
termination
  by (relation "measure (\<lambda>(n, xs). length xs)") auto

declare batches.simps [simp del]

text \<open>
  \<open>Data.get_dataset\<close>. Building the dataset raises for a file index out of range and for
  a batch size that is not positive; reading, decoding and preprocessing happen when the
  dataset is iterated. Training files are read \<open>autotune\<close> at a time (at least one), test
  files one at a time; \<open>file_indices\<close> are the array indices that \<open>KFold\<close> gives, or None.
\<close>

definition get_dataset ::
  "('m, 'sos) libraries \<Rightarrow> 'sos Data \<Rightarrow> 'm fsys \<Rightarrow> bool \<Rightarrow> bool \<Rightarrow> nat list option
     \<Rightarrow> error + dataset" where
  "get_dataset libs self fs train_or_test shuffle file_indices =
     (let data_files = (if train_or_test then Data_train_files self else Data_test_files self);
          selected =
            (case file_indices of
               None \<Rightarrow> Inr data_files
             | Some indices \<Rightarrow>
                 collect (map (\<lambda>i. if i < length data_files then Inr (data_files ! i)
                                    else Inl IndexError) indices));
          n = batch_size (Data_config self)
      in case selected of
           Inl e \<Rightarrow> Inl e
         | Inr data_files' \<Rightarrow>
             if n \<le> 0 then Inl InvalidArgumentError
             else
               Inr (case TFRecordDataset fs data_files'
                           (if train_or_test then max 1 (autotune libs) else 1) of
                      Inl e \<Rightarrow> Inl e
                    | Inr ds \<Rightarrow>
                        (let ds' =
                               (if shuffle
                                then dataset_shuffle libs (shuffle_buf_size (Data_config self)) ds
                                else ds);
                             batched =
                               (if train_or_test then
                                  (case collect (map decode_train ds') of
                                     Inl e \<Rightarrow> Inl e
                                   | Inr examples \<Rightarrow>
                                       Inr (map (\<lambda>b. (map fst b, Some (map snd b)))
                                              (batches (nat n) examples)))
                                else
                                  (case collect (map decode_test ds') of
                                     Inl e \<Rightarrow> Inl e
                                   | Inr examples \<Rightarrow>
                                       Inr (map (\<lambda>b. (b, None)) (batches (nat n) examples))))
                         in case batched of
                              Inl e \<Rightarrow> Inl e
                            | Inr bs \<Rightarrow> collect (map (preprocess libs self) bs))))"

section \<open>Training and inference\<close>

text \<open>
  Modelled from the spec: the fold assignment is the work of scikit-learn's \<open>KFold\<close>,
  which the notebook calls and which is not among the source files. The spec has it as a
  partition of the shard indices into K groups, computed from a seeded shuffle. The
  shuffle is a parameter here, and the rest follows what scikit-learn and numpy document
  of \<open>KFold(n_splits, shuffle=True, random_state).split\<close> over \<open>n_samples\<close> items: the
  indices \<open>0 .. n_samples - 1\<close> are shuffled and cut into \<open>n_splits\<close> consecutive slices,
  the first \<open>n_samples mod n_splits\<close> of them one longer than the others; every slice is
  the test set of one fold, and a fold is given as its train indices and its test
  indices, both in increasing order. ValueError is raised for fewer than two splits, for
  more splits than samples, and for a seed that \<open>numpy.random.RandomState\<close> does not take,
  which is one outside \<open>0 .. 2 ^ 32 - 1\<close>.
\<close>

fun slices :: "'a list \<Rightarrow> nat list \<Rightarrow> 'a list list" where
  "slices xs [] = []"
| "slices xs (n # ns) = take n xs # slices (drop n xs) ns"

definition fold_sizes :: "nat \<Rightarrow> nat \<Rightarrow> nat list" where
  "fold_sizes n_samples n_splits =
     map (\<lambda>i. n_samples div n_splits + (if i < n_samples mod n_splits then 1 else 0))
       [0..<n_splits]"

definition KFold_split ::
  "(int \<Rightarrow> nat list \<Rightarrow> nat list) \<Rightarrow> int \<Rightarrow> int \<Rightarrow> nat \<Rightarrow> error + (nat list \<times> nat list) list" where
  "KFold_split shuffle n_splits random_state n_samples =
     (if n_splits \<le> 1 then
        Inl (ValueError ''k-fold cross-validation requires at least one train/test split'')
      else if int n_samples < n_splits then
        Inl (ValueError ''Cannot have number of splits greater than the number of samples'')
      else if random_state < 0 \<or> 2 ^ 32 \<le> random_state then
        Inl (ValueError ''Seed must be between 0 and 2**32 - 1'')
      else
        Inr (map (\<lambda>test. (filter (\<lambda>i. i \<notin> set test) [0..<n_samples],
                           filter (\<lambda>i. i \<in> set test) [0..<n_samples]))
               (slices (shuffle random_state [0..<n_samples])
                  (fold_sizes n_samples (nat n_splits)))))"

text \<open>The fold assignment of a run: \<open>kf.split(data.train_files)\<close>.\<close>

definition fold_assignment ::
  "('m, 'sos) libraries \<Rightarrow> Config \<Rightarrow> 'sos Data \<Rightarrow> error + (nat list \<times> nat list) list" where
  "fold_assignment libs config data =
     KFold_split (random_shuffle libs) (K_fold config) (seed config)
       (length (Data_train_files data))"

text \<open>\<open>config.train_folds or range(config.K_fold)\<close>.\<close>

definition configured_folds :: "Config \<Rightarrow> int list" where
  "configured_folds config =
     (if train_folds config \<noteq> [] then train_folds config
      else map int [0..<nat (K_fold config)])"

text \<open>
  A checkpoint is a directory that holds the saved model. \<open>save_model\<close> is what the
  checkpoint callback does, \<open>load_model\<close> is \<open>keras.models.load_model\<close>.
\<close>

definition save_model :: "'m fsys \<Rightarrow> path \<Rightarrow> 'm \<Rightarrow> 'm fsys" where
  "save_model fs checkpoint_path m =
     put (if exists fs checkpoint_path then fs else (checkpoint_path, Dir) # fs)
       (joinpath checkpoint_path ''saved_model.pb'') (File (SavedModel m))"

definition load_model :: "'m fsys \<Rightarrow> path \<Rightarrow> error + 'm" where
  "load_model fs checkpoint_path =
     (case map_of fs (joinpath checkpoint_path ''saved_model.pb'') of
        Some (File (SavedModel m)) \<Rightarrow> Inr m
      | _ \<Rightarrow> Inl OSError)"

text \<open>
  \<open>train\<close>: one fold. The best model is saved under \<open>checkpoint_fold<k>\<close> of the results
  path, the history is written beside it, and the saved model is loaded again.
\<close>

definition train ::
  "('m, 'sos) libraries \<Rightarrow> Config \<Rightarrow> dataset \<Rightarrow> dataset \<Rightarrow> int \<Rightarrow> 'm world
     \<Rightarrow> (error + 'm \<times> path) \<times> 'm world" where
  "train libs config train_data val_data fold_k w =
     (case results_path config of
        None \<Rightarrow> (Inl TypeError, w)
      | Some rp \<Rightarrow>
          (let checkpoint_path = joinpath rp (''checkpoint'' @ ''_fold'' @ str_int fold_k);
               fitted = keras_fit libs config train_data val_data;
               w1 = (case fst fitted of
                       None \<Rightarrow> w
                     | Some m \<Rightarrow> w\<lparr>files := save_model (files w) checkpoint_path m\<rparr>)
           in case snd fitted of
                Some e \<Rightarrow> (Inl e, w1)
              | None \<Rightarrow>
                  (case write_file (files w1) (joinpath checkpoint_path ''train_history.csv'')
                          TrainHistory of
                     Inl e \<Rightarrow> (Inl e, w1)
                   | Inr fs \<Rightarrow>
                       (case load_model fs checkpoint_path of
                          Inl e \<Rightarrow> (Inl e, w1\<lparr>files := fs\<rparr>)
                        | Inr model \<Rightarrow> (Inr (model, checkpoint_path), w1\<lparr>files := fs\<rparr>)))))"

text \<open>
  \<open>oof_predict\<close>: labels and predictions are gathered batch by batch from one pass over
  the validation data. \<open>tf.concat\<close> of an empty list is an error.
\<close>

definition oof_predict ::
  "('m, 'sos) libraries \<Rightarrow> 'm \<Rightarrow> dataset \<Rightarrow> error + real list \<times> real list \<times> real" where
  "oof_predict libs model val_data =
     (case val_data of
        Inl e \<Rightarrow> Inl e
      | Inr bs \<Rightarrow>
          if bs = [] then Inl InvalidArgumentError
          else
            (let val_y_true = concat (map (\<lambda>b. case snd b of None \<Rightarrow> [] | Some y \<Rightarrow> y) bs);
                 val_y_pred = concat (map (\<lambda>b. map (model_predict libs model) (fst b)) bs)
             in Inr (val_y_true, val_y_pred, auc_score libs val_y_true val_y_pred)))"

text \<open>
  \<open>make_inference\<close>. Each model of \<open>zip(folds, models)\<close> predicts the whole test dataset;
  the predictions are averaged sample by sample over the models, joined to the ids of
  \<open>sample_submission.csv\<close> and written to \<open>submission.csv\<close>. Without a model
  \<open>np.concatenate\<close> raises; \<open>predict\<close> raises what reading the dataset raises, and
  raises on an empty dataset.
\<close>

definition mean_predictions :: "real list list \<Rightarrow> real list" where
  "mean_predictions test_preds =
     map (\<lambda>i. sum_list (map (\<lambda>y_pred. y_pred ! i) test_preds) / real (length test_preds))
       [0..<length (hd test_preds)]"

definition make_inference ::
  "('m, 'sos) libraries \<Rightarrow> Config \<Rightarrow> 'm list \<Rightarrow> 'm world
     \<Rightarrow> (error + (string \<times> real) list) \<times> 'm world" where
  "make_inference libs config models w =
     (case Data_init libs config of
        Inl e \<Rightarrow> (Inl e, w)
      | Inr data \<Rightarrow>
          (case get_dataset libs data (files w) False False None of
             Inl e \<Rightarrow> (Inl e, w)
           | Inr test_data \<Rightarrow>
               (let pairs = zip (configured_folds config) models in
                if pairs = [] then
                  (Inl (ValueError ''need at least one array to concatenate''), w)
                else
                  (case test_data of
                     Inl e \<Rightarrow>
                       (Inl e, w\<lparr>printed := printed w @ [LogInferenceByFold (fst (hd pairs))]\<rparr>)
                   | Inr bs \<Rightarrow>
                       if bs = [] then
                         (Inl (ValueError ''Expect x to be a non-empty array or dataset.''),
                          w\<lparr>printed := printed w @ [LogInferenceByFold (fst (hd pairs))]\<rparr>)
                       else
                         (let w1 = w\<lparr>printed := printed w @
                                      map (\<lambda>pair. LogInferenceByFold (fst pair)) pairs\<rparr>;
                              test_preds =
                                mean_predictions
                                  (map (\<lambda>pair. concat (map (\<lambda>b. map (model_predict libs (snd pair))
                                                                  (fst b)) bs)) pairs)
                          in case map_of (files w)
                                    (Path (data_path config @ ''sample_submission.csv'')) of
                               Some (File (SampleCsv ids)) \<Rightarrow>
                                 if length ids \<noteq> length test_preds then
                                   (Inl (ValueError ''All arrays must be of the same length''), w1)
                                 else
                                   (case results_path config of
                                      None \<Rightarrow> (Inl TypeError, w1)
                                    | Some rp \<Rightarrow>
                                        (case write_file (files w1) (joinpath rp ''submission.csv'')
                                                (SubmissionCsv (zip ids test_preds)) of
                                           Inl e \<Rightarrow> (Inl e, w1)
                                         | Inr fs \<Rightarrow>
                                             (Inr (zip ids test_preds),
                                              w1\<lparr>files := fs,
                                                 printed := printed w1 @
                                                   [LogInferenceWritten
                                                      (joinpath rp ''submission.csv'')]\<rparr>)))
                             | _ \<Rightarrow> (Inl FileNotFoundError, w1))))))"

text \<open>
  \<open>get_logger(config.name, log_path=config.results_path)\<close> opens the log file in the
  results directory when that directory exists.
\<close>

definition get_logger :: "Config \<Rightarrow> 'm world \<Rightarrow> (error + unit) \<times> 'm world" where
  "get_logger config w =
     (case results_path config of
        None \<Rightarrow> (Inr (), w)
      | Some rp \<Rightarrow>
          if exists (files w) rp then
            (case write_file (files w) (joinpath rp (name config @ ''.log'')) LogFile of
               Inl e \<Rightarrow> (Inl e, w)
             | Inr fs \<Rightarrow> (Inr (), w\<lparr>files := fs\<rparr>))
          else (Inr (), w))"

text \<open>The lists the fold loop fills, and what the run returns.\<close>

record 'm oof =
  oof_models :: "'m list"
  oof_model_paths :: "path list"
  oof_labels :: "real list list"
  oof_preds :: "real list list"
  k_fold_scores :: "real list"

record 'm outcome =
  out_models :: "'m list"
  out_model_paths :: "path list"
  out_oof_score :: real
  out_k_fold_scores :: "real list"
  out_test_preds_df :: "(string \<times> real) list"

text \<open>The body of the loop over \<open>enumerate(kf.split(data.train_files))\<close>.\<close>

fun train_folds_loop ::
  "('m, 'sos) libraries \<Rightarrow> Config \<Rightarrow> 'sos Data \<Rightarrow> (nat \<times> nat list \<times> nat list) list \<Rightarrow> 'm oof
     \<Rightarrow> 'm world \<Rightarrow> (error + 'm oof) \<times> 'm world" where
  "train_folds_loop libs config data [] acc w = (Inr acc, w)"
| "train_folds_loop libs config data ((k, train_idx, val_idx) # rest) acc w =
     (if train_folds config \<noteq> [] \<and> int k \<notin> set (train_folds config) then
        train_folds_loop libs config data rest acc w
      else
        (let w1 = w\<lparr>printed := printed w @
                      [LogTrainFold (int k) (train_folds config), LogTrainVal train_idx val_idx]\<rparr>
         in case get_dataset libs data (files w1) True True (Some train_idx) of
              Inl e \<Rightarrow> (Inl e, w1)
            | Inr train_data \<Rightarrow>
                (case get_dataset libs data (files w1) True False (Some val_idx) of
                   Inl e \<Rightarrow> (Inl e, w1)
                 | Inr val_data \<Rightarrow>
                     (case train libs config train_data val_data (int k) w1 of
                        (Inl e, w2) \<Rightarrow> (Inl e, w2)
                      | (Inr (model, model_path), w2) \<Rightarrow>
                          (case oof_predict libs model val_data of
                             Inl e \<Rightarrow> (Inl e, w2)
                           | Inr (val_y_true, val_y_pred, val_score) \<Rightarrow>
                               train_folds_loop libs config data rest
                                 \<lparr>oof_models = oof_models acc @ [model],
                                  oof_model_paths = oof_model_paths acc @ [model_path],
                                  oof_labels = oof_labels acc @ [val_y_true],
                                  oof_preds = oof_preds acc @ [val_y_pred],
                                  k_fold_scores = k_fold_scores acc @ [val_score]\<rparr>
                                 (w2\<lparr>printed := printed w2 @ [LogFoldScore (int k) val_score]\<rparr>))))))"

text \<open>
  \<open>train_K_folds_make_inference\<close> after its \<open>try\<close> statement: the logger, the data
  builder, the folds, the out-of-fold score and the inference. Nothing here assigns to
  \<open>config\<close>.
\<close>

definition train_K_folds ::
  "('m, 'sos) libraries \<Rightarrow> Config \<Rightarrow> 'm world \<Rightarrow> (error + 'm outcome) \<times> 'm world" where
  "train_K_folds libs config w0 =
     (case get_logger config w0 of
        (Inl e, w1) \<Rightarrow> (Inl e, w1)
      | (Inr u, w1) \<Rightarrow>
          (let w2 = w1\<lparr>printed := printed w1 @
                       [LogDescription (description config),
                        LogResultsPath (results_path config)]\<rparr>
           in case Data_init libs config of
                Inl e \<Rightarrow> (Inl e, w2)
              | Inr data \<Rightarrow>
                  (case fold_assignment libs config data of
                     Inl e \<Rightarrow> (Inl e, w2)
                   | Inr folds \<Rightarrow>
                       (case train_folds_loop libs config data (zip [0..<length folds] folds)
                               \<lparr>oof_models = [], oof_model_paths = [], oof_labels = [],
                                oof_preds = [], k_fold_scores = []\<rparr> w2 of
                          (Inl e, w3) \<Rightarrow> (Inl e, w3)
                        | (Inr acc, w3) \<Rightarrow>
                            if oof_labels acc = [] then (Inl InvalidArgumentError, w3)
                            else
                              (let oof_score =
                                     auc_score libs (concat (oof_labels acc))
                                       (concat (oof_preds acc));
                                   w4 = w3\<lparr>printed := printed w3 @
                                            [LogOOFScore oof_score, LogInference]\<rparr>
                               in case make_inference libs config (oof_models acc) w4 of
                                    (Inl e, w5) \<Rightarrow> (Inl e, w5)
                                  | (Inr test_preds_df, w5) \<Rightarrow>
                                      (Inr \<lparr>out_models = oof_models acc,
                                            out_model_paths = oof_model_paths acc,
                                            out_oof_score = oof_score,
                                            out_k_fold_scores = k_fold_scores acc,
                                            out_test_preds_df = test_preds_df\<rparr>,
                                       w5))))))"

text \<open>
  \<open>train_K_folds_make_inference\<close>. The result is the raised exception, or None for the
  bare \<open>return\<close> of the handler of FileExistsError, or the tuple the function returns;
  with it come the configuration object and the files as the call leaves them.
\<close>

definition train_K_folds_make_inference ::
  "('m, 'sos) libraries \<Rightarrow> Config \<Rightarrow> 'm world
     \<Rightarrow> (error + 'm outcome option) \<times> Config \<times> 'm world" where
  "train_K_folds_make_inference libs config w =
     (case check_save_config config w of
        (Inl e, config', w0) \<Rightarrow>
          if e = FileExistsError then
            (Inr None, config', w0\<lparr>printed := printed w0 @ [QuitMessage (results_path config')]\<rparr>)
          else (Inl e, config', w0)
      | (Inr u, config', w0) \<Rightarrow>
          (case train_K_folds libs config' w0 of
             (Inl e, w') \<Rightarrow> (Inl e, config', w')
           | (Inr result, w') \<Rightarrow> (Inr (Some result), config', w')))"

text \<open>
  \<open>load_results_make_inference\<close>: the configuration is read from \<open>config.pkl\<close>, one model
  is loaded for each configured fold, and \<open>make_inference\<close> does the rest. None is the
  bare \<open>return\<close> for a path that does not exist.
\<close>

definition load_results_make_inference ::
  "('m, 'sos) libraries \<Rightarrow> string \<Rightarrow> 'm world
     \<Rightarrow> (error + (string \<times> real) list option) \<times> 'm world" where
  "load_results_make_inference libs results_path' w =
     (let p = Path results_path' in
      if \<not> exists (files w) p then
        (Inr None, w\<lparr>printed := printed w @ [InvalidResultsPath results_path']\<rparr>)
      else
        (case map_of (files w) (joinpath p ''config.pkl'') of
           Some (File (Pickle config)) \<Rightarrow>
             (case collect (map (\<lambda>k. load_model (files w)
                                       (joinpath p (''checkpoint_fold'' @ str_int k)))
                              (configured_folds config)) of
                Inl e \<Rightarrow> (Inl e, w)
              | Inr models \<Rightarrow>
                  (case make_inference libs config models w of
                     (Inl e, w') \<Rightarrow> (Inl e, w')
                   | (Inr test_preds_df, w') \<Rightarrow> (Inr (Some test_preds_df), w')))
         | _ \<Rightarrow> (Inl FileNotFoundError, w)))"

section \<open>Auxiliary definitions for the proofs\<close>

text \<open>
  Broadcasting either succeeds on every record or raises one and the same ValueError;
  \<open>bc_ok\<close> says when it succeeds and \<open>bc_val\<close> what it then returns.
\<close>

definition bc_error :: error where
  "bc_error = ValueError ''operands could not be broadcast together''"

definition bc_ok :: "'a list \<Rightarrow> 'b list \<Rightarrow> bool" where
  "bc_ok xs ys = (length xs = length ys \<or> length xs = 1 \<or> length ys = 1)"

definition bc_val :: "('a \<Rightarrow> 'b \<Rightarrow> 'c) \<Rightarrow> 'a list \<Rightarrow> 'b list \<Rightarrow> 'c list" where
  "bc_val f xs ys =
     (if length xs = length ys then map2 f xs ys
      else if length xs = 1 then map (f (hd xs)) ys
      else map (\<lambda>x. f x (hd ys)) xs)"

definition scaling_ok :: "'a scaling \<Rightarrow> 'b list \<Rightarrow> bool" where
  "scaling_ok s record =
     (case s of PyFloat c \<Rightarrow> True | NdArray cs \<Rightarrow> bc_ok cs record | PyList cs \<Rightarrow> bc_ok cs record)"

definition scaling_val :: "'a::times scaling \<Rightarrow> 'a list list \<Rightarrow> 'a list list" where
  "scaling_val s record =
     (case s of
        PyFloat c \<Rightarrow> map (map (\<lambda>x. c * x)) record
      | NdArray cs \<Rightarrow> bc_val (\<lambda>c channel. map (\<lambda>x. c * x) channel) cs record
      | PyList cs \<Rightarrow> bc_val (\<lambda>c channel. map (\<lambda>x. c * x) channel) cs record)"

definition window_ok :: "'a window \<Rightarrow> 'b list list \<Rightarrow> bool" where
  "window_ok w record =
     (case w of WScalar c \<Rightarrow> True | WArray ws \<Rightarrow> list_all (\<lambda>channel. bc_ok channel ws) record)"

definition window_val :: "'a::times window \<Rightarrow> 'a list list \<Rightarrow> 'a list list" where
  "window_val w record =
     (case w of
        WScalar c \<Rightarrow> map (map (\<lambda>x. x * c)) record
      | WArray ws \<Rightarrow> map (\<lambda>channel. bc_val (*) channel ws) record)"

definition record_ok :: "('a::times, 'sos) SignalFilter \<Rightarrow> 'a list list \<Rightarrow> bool" where
  "record_ok self record =
     (scaling_ok (self_scaling self) record
      \<and> window_ok (self_filter_window self) (scaling_val (self_scaling self) record))"

definition record_val ::
  "('sos \<Rightarrow> 'a list \<Rightarrow> 'a list) \<Rightarrow> ('a::times, 'sos) SignalFilter \<Rightarrow> 'a list list \<Rightarrow> 'a list list" where
  "record_val sosfilt self record =
     map (map (\<lambda>x. x * self_filter_norm self))
       (map (sosfilt (self_filter self))
          (window_val (self_filter_window self) (scaling_val (self_scaling self) record)))"

text \<open>What \<open>_preprocess\<close> makes of one record of a batch.\<close>

definition preprocess_record ::
  "('m, 'sos) libraries \<Rightarrow> 'sos Data \<Rightarrow> real list list \<Rightarrow> real list list" where
  "preprocess_record libs self x =
     transpose (record_val (signal_sosfilt libs) (Data_filter self) x)"

text \<open>The predictions of one model over the whole test dataset.\<close>

definition fold_predictions :: "('m, 'sos) libraries \<Rightarrow> batch list \<Rightarrow> 'm \<Rightarrow> real list" where
  "fold_predictions libs test_data model =
     concat (map (\<lambda>b. map (model_predict libs model) (fst b)) test_data)"

section \<open>Concrete instances for the witnesses\<close>

text \<open>
  A stand-in for the scipy routines, used only to run the model on concrete inputs: a
  taper of ones, a design routine that accepts everything, the real square root, and the
  first difference \<open>y[n] = x[n] - x[n-1]\<close> as the one-dimensional filter.
\<close>

fun first_difference :: "'a::minus \<Rightarrow> 'a list \<Rightarrow> 'a list" where
  "first_difference previous [] = []"
| "first_difference previous (x # xs) = (x - previous) # first_difference x xs"

definition example_lib :: "unit signal_lib" where
  "example_lib =
     \<lparr>tukey = (\<lambda>n alpha. replicate n 1), butter = (\<lambda>order wn btype fs. Inr ()),
      np_sqrt = sqrt\<rparr>"

definition example_sosfilt :: "unit \<Rightarrow> real list \<Rightarrow> real list" where
  "example_sosfilt sos xs = first_difference 0 xs"

definition example_tapered :: "(real, unit) SignalFilter" where
  "example_tapered =
     \<lparr>self_scaling = PyList [2, 3, 5], self_filter_window = WArray [1 / 2, 1],
      self_filter_norm = 1 / 2, self_filter = ()\<rparr>"

text \<open>
  A second stand-in, closer to scipy: a taper that falls to \<open>alpha\<close> at both ends, a design
  routine that checks its arguments as \<open>signal.butter\<close> does (the band type among the names
  it knows, the cutoffs increasing and between 0 and half the sampling rate) and gives the
  order as its design, and a filter that multiplies by the design and takes the first
  difference.
\<close>

definition example_tukey :: "nat \<Rightarrow> real \<Rightarrow> real list" where
  "example_tukey n alpha = map (\<lambda>i. if i = 0 \<or> Suc i = n then alpha else 1) [0..<n]"

definition example_butter :: "int \<Rightarrow> Wn \<Rightarrow> string \<Rightarrow> int \<Rightarrow> error + int" where
  "example_butter order wn btype fs =
     (if btype \<noteq> ''bandpass'' \<and> btype \<noteq> ''highpass'' then
        Inl (ValueError ''invalid bandtype for filter'')
      else
        (case wn of
           Single lo \<Rightarrow>
             if 0 < lo \<and> lo < real_of_int fs / 2 then Inr order
             else Inl (ValueError ''Digital filter critical frequencies must be 0 < Wn < fs/2'')
         | Band lo hi \<Rightarrow>
             if 0 < lo \<and> lo < real_of_int fs / 2 \<and> 0 < hi \<and> hi < real_of_int fs / 2 then
               (if lo < hi then Inr order else Inl (ValueError ''Wn[0] must be less than Wn[1]''))
             else Inl (ValueError ''Digital filter critical frequencies must be 0 < Wn < fs/2'')))"

definition taper_lib :: "int signal_lib" where
  "taper_lib = \<lparr>tukey = example_tukey, butter = example_butter, np_sqrt = sqrt\<rparr>"

definition gain_difference :: "int \<Rightarrow> real list \<Rightarrow> real list" where
  "gain_difference sos xs = first_difference 0 (map (\<lambda>x. real_of_int sos * x) xs)"

text \<open>A sampling rate that is a Python int and has no float for its half.\<close>

definition huge_rate :: int where
  "huge_rate = 10 ^ 400"

text \<open>
  Symbolic samples: a sample is a name, a product, or what the filter makes of a sample.
  The product is free, so the result of \<open>filt\<close> on names spells out which factor was
  multiplied from which side and in which order.
\<close>

datatype symbolic = Sym string | Times symbolic symbolic | Filtered symbolic

instantiation symbolic :: times
begin

definition times_symbolic :: "symbolic \<Rightarrow> symbolic \<Rightarrow> symbolic" where
  "times_symbolic = Times"

instance ..

end



text \<open>
  The configuration of the notebook's configuration cell, with short paths, and stand-ins
  for the other libraries: two files read in parallel, shuffles that reverse, a fit
  that saves the model \<open>1/2\<close>, models that predict the number they are.
\<close>

definition example_config :: Config where
  "example_config =
     \<lparr>name = ''run'', description = ''CNN1d GeM AdamW'', data_path = ''data/'',
      results_parent_path = ''results/'', results_path = None, shuffle_buf_size = 2048,
      K_fold = 5, train_folds = [], batch_size = 50, epochs = 8, warm_start = False,
      warm_start_model_path = [],
      filter' = \<lparr>scaling = PyFloat (10 ^ 20), filter_type = ''bandpass'', filter_order = 8,
                 f_lo = 25, f_hi = Some 1000, sampling_rate = 2048\<rparr>,
      lr_schedule = ''CosineDecay'',
      lr_schedule_paras =
        [(''CosineDecay'',
          [(''initial_learning_rate'', PyNum (1 / 10000)), (''decay_steps'', PyNum 5),
           (''alpha'', PyNum (1 / 1000))])],
      optimizer = ''AdamW'',
      optimizer_paras =
        [(''SGDW'',
          [(''weight_decay'', PyNum (1 / 100000)), (''momentum'', PyNum (9 / 10)),
           (''nesterov'', PyBool True)]),
         (''AdamW'', [(''weight_decay'', PyNum (1 / 100000))])],
      seed = 42\<rparr>"

definition example_libs :: "(real, unit) libraries" where
  "example_libs =
     \<lparr>scipy = example_lib, signal_sosfilt = example_sosfilt, autotune = 2,
      dataset_shuffle = (\<lambda>buffer_size records. rev records),
      random_shuffle = (\<lambda>random_state indices. rev indices),
      keras_fit = (\<lambda>config train_data val_data. (Some (1 / 2), None)),
      model_predict = (\<lambda>model X. model),
      auc_score = (\<lambda>y_true y_pred. 1 / 2)\<rparr>"

definition example_used_world :: "real world" where
  "example_used_world =
     \<lparr>files = [([''results''], Dir), ([''results'', ''run''], Dir),
               ([''results'', ''run'', ''config.pkl''], File Empty)],
      printed = []\<rparr>"

definition example_saved_config :: Config where
  "example_saved_config =
     example_config\<lparr>results_path := Some [''results'', ''run''], train_folds := [0, 1]\<rparr>"

definition example_data :: "unit Data" where
  "example_data =
     \<lparr>Data_config = example_saved_config,
      Data_train_files =
        map (\<lambda>i. ''data/train'' @ str_nat i @ ''.tfrecords'') [0..<20],
      Data_test_files =
        map (\<lambda>i. ''data/test'' @ str_nat i @ ''.tfrecords'') [0..<10],
      Data_filter =
        \<lparr>self_scaling = PyFloat (10 ^ 20), self_filter_window = WArray (replicate 4096 1),
         self_filter_norm = sqrt (975 / 1024), self_filter = ()\<rparr>\<rparr>"

text \<open>
  A results directory of an earlier run that trained the folds 0 and 1, to which the
  checkpoint of fold 2 has been added; two training shards and ten test shards, of which
  two hold one record each.
\<close>

definition example_record :: "string \<Rightarrow> real \<Rightarrow> int option \<Rightarrow> raw_example" where
  "example_record i v t = \<lparr>wave = replicate 12288 v, target = t, wave_id = i\<rparr>"

definition example_world :: "real world" where
  "example_world =
     \<lparr>files =
        [([''data''], Dir),
         ([''data'', ''train0.tfrecords''],
          File (TFRecords [example_record ''a1'' 1 (Some 0), example_record ''a2'' 2 (Some 0)])),
         ([''data'', ''train1.tfrecords''],
          File (TFRecords [example_record ''b1'' 3 (Some 1), example_record ''b2'' 4 (Some 1)])),
         ([''data'', ''test0.tfrecords''], File (TFRecords [example_record ''t1'' 5 None])),
         ([''data'', ''test1.tfrecords''], File (TFRecords [example_record ''t2'' 6 None])),
         ([''data'', ''test2.tfrecords''], File (TFRecords [])),
         ([''data'', ''test3.tfrecords''], File (TFRecords [])),
         ([''data'', ''test4.tfrecords''], File (TFRecords [])),
         ([''data'', ''test5.tfrecords''], File (TFRecords [])),
         ([''data'', ''test6.tfrecords''], File (TFRecords [])),
         ([''data'', ''test7.tfrecords''], File (TFRecords [])),
         ([''data'', ''test8.tfrecords''], File (TFRecords [])),
         ([''data'', ''test9.tfrecords''], File (TFRecords [])),
         ([''data'', ''sample_submission.csv''], File (SampleCsv [''t1'', ''t2''])),
         ([''results''], Dir),
         ([''results'', ''run''], Dir),
         ([''results'', ''run'', ''config.pkl''], File (Pickle example_saved_config)),
         ([''results'', ''run'', ''checkpoint_fold0''], Dir),
         ([''results'', ''run'', ''checkpoint_fold0'', ''saved_model.pb''],
          File (SavedModel (1 / 4))),
         ([''results'', ''run'', ''checkpoint_fold1''], Dir),
         ([''results'', ''run'', ''checkpoint_fold1'', ''saved_model.pb''],
          File (SavedModel (3 / 4))),
         ([''results'', ''run'', ''checkpoint_fold2''], Dir),
         ([''results'', ''run'', ''checkpoint_fold2'', ''saved_model.pb''],
          File (SavedModel (1 / 2)))],
      printed = []\<rparr>"

definition example_wave :: "real \<Rightarrow> real list list" where
  "example_wave v = [replicate 4096 v, replicate 4096 v, replicate 4096 v]"

text \<open>The same results directory without the saved model of fold 1.\<close>

definition example_incomplete_world :: "real world" where
  "example_incomplete_world =
     example_world\<lparr>files :=
       filter (\<lambda>entry. fst entry \<noteq> [''results'', ''run'', ''checkpoint_fold1'', ''saved_model.pb''])
         (files example_world)\<rparr>"

section \<open>SignalFilter: lemmas\<close>

lemma broadcast_cases:
  "broadcast f xs ys = (if bc_ok xs ys then Inr (bc_val f xs ys) else Inl bc_error)"
  by (simp add: broadcast_def bc_ok_def bc_val_def bc_error_def)

lemma collect_cases:
  "(\<And>x. f x = (if P x then Inr (g x) else Inl e)) \<Longrightarrow>
     collect (map f xs) = (if list_all P xs then Inr (map g xs) else Inl e)"
  by (induction xs) auto

lemma mul_scaling_cases:
  "mul_scaling s X =
     (if list_all (scaling_ok s) X then Inr (map (scaling_val s) X) else Inl bc_error)"
proof (cases s)
  case (PyFloat c)
  then show ?thesis by (simp add: scaling_ok_def scaling_val_def list_all_iff)
next
  case (NdArray cs)
  then show ?thesis
    by (simp add: scaling_ok_def [abs_def] scaling_val_def [abs_def]
        collect_cases [where P = "bc_ok cs" and e = bc_error, OF broadcast_cases])
next
  case (PyList cs)
  then show ?thesis
    by (simp add: scaling_ok_def [abs_def] scaling_val_def [abs_def]
        collect_cases [where P = "bc_ok cs" and e = bc_error, OF broadcast_cases])
qed

lemma mul_window_cases:
  "mul_window X w =
     (if list_all (window_ok w) X then Inr (map (window_val w) X) else Inl bc_error)"
proof (cases w)
  case (WScalar c)
  then show ?thesis by (simp add: window_ok_def window_val_def list_all_iff)
next
  case (WArray ws)
  have inner: "collect (map (\<lambda>channel. broadcast (*) channel ws) r) =
      (if window_ok w r then Inr (window_val w r) else Inl bc_error)" for r :: "'a list list"
    by (simp add: WArray window_ok_def window_val_def
        collect_cases [where P = "\<lambda>channel. bc_ok channel ws" and e = bc_error, OF broadcast_cases])
  show ?thesis
    by (simp add: WArray collect_cases [OF inner])
qed

lemma filt_cases:
  "filt sosfilt self X =
     (if list_all (record_ok self) X then Inr (map (record_val sosfilt self) X)
      else Inl bc_error)"
  by (auto simp add: filt_def mul_scaling_cases mul_window_cases record_ok_def record_val_def
      list_all_iff)

lemma map2_nth:
  "length xs = length ys \<Longrightarrow> map2 f xs ys = map (\<lambda>i. f (xs ! i) (ys ! i)) [0..<length ys]"
  by (rule nth_equalityI) simp_all

lemma map_nth_upt: "map f xs = map (\<lambda>i. f (xs ! i)) [0..<length xs]"
  by (rule nth_equalityI) simp_all

lemma scaling_val_step:
  assumes "channels_ok s r"
  shows "scaling_val s r = map (\<lambda>ch. map (\<lambda>x. factor s ch * x) (r ! ch)) [0..<length r]"
proof (cases s)
  case (PyFloat c)
  then show ?thesis
    by (simp add: scaling_val_def map_nth_upt [of "map (\<lambda>x. c * x)" r])
next
  case (NdArray cs)
  then show ?thesis
    using assms by (simp add: scaling_val_def bc_val_def map2_nth)
next
  case (PyList cs)
  then show ?thesis
    using assms by (simp add: scaling_val_def bc_val_def map2_nth)
qed

lemma window_val_step:
  assumes "list_all (samples_ok w) r"
  shows "window_val w r = map (\<lambda>channel. map (\<lambda>t. channel ! t * weight w t) [0..<length channel]) r"
proof (cases w)
  case (WScalar c)
  then show ?thesis
    by (simp add: window_val_def map_nth_upt [of "\<lambda>x. x * c"])
next
  case (WArray ws)
  have "bc_val (*) channel ws = map (\<lambda>t. channel ! t * ws ! t) [0..<length channel]"
    if "channel \<in> set r" for channel
  proof -
    have "length channel = length ws"
      using that assms WArray by (simp add: list_all_iff)
    then show ?thesis
      by (simp add: bc_val_def map2_nth)
  qed
  then show ?thesis
    by (simp add: WArray window_val_def)
qed

lemma record_ok_shape:
  assumes "channels_ok (self_scaling self) r"
    and "list_all (samples_ok (self_filter_window self)) r"
  shows "record_ok self r"
proof -
  have 1: "scaling_ok (self_scaling self) r"
    using assms(1) by (cases "self_scaling self") (simp_all add: scaling_ok_def bc_ok_def)
  have 2: "window_ok (self_filter_window self) (scaling_val (self_scaling self) r)"
    using assms(2)
    by (cases "self_filter_window self")
      (simp_all add: scaling_val_step [OF assms(1)] window_ok_def bc_ok_def list_all_length)
  show ?thesis using 1 2 by (simp add: record_ok_def)
qed

lemma record_val_steps:
  assumes "channels_ok (self_scaling self) r"
    and "list_all (samples_ok (self_filter_window self)) r"
  shows "[record_val sosfilt self r] = four_steps sosfilt self [r]"
proof -
  have "list_all (samples_ok (self_filter_window self)) (scaling_val (self_scaling self) r)"
    using assms(2)
    by (cases "self_filter_window self")
      (simp_all add: scaling_val_step [OF assms(1)] list_all_length)
  then show ?thesis
    by (simp add: record_val_def four_steps_def step_normalize_def step_filter_def
        step_taper_def step_scale_def window_val_step scaling_val_step [OF assms(1)])
qed

lemma four_steps_map: "four_steps sosfilt self X = concat (map (\<lambda>r. four_steps sosfilt self [r]) X)"
  by (induction X)
    (simp_all add: four_steps_def step_normalize_def step_filter_def step_taper_def step_scale_def)

lemma filt_refines:
  assumes "shape_ok self X"
  shows "filt sosfilt self X = Inr (four_steps sosfilt self X)"
proof -
  have ok: "list_all (record_ok self) X"
    using assms by (auto simp add: shape_ok_def list_all_iff intro: record_ok_shape)
  have eq: "map (\<lambda>r. [record_val sosfilt self r]) X = map (\<lambda>r. four_steps sosfilt self [r]) X"
    using assms
    by (intro map_cong refl record_val_steps) (auto simp add: shape_ok_def list_all_iff)
  have "map (record_val sosfilt self) X = concat (map (\<lambda>r. [record_val sosfilt self r]) X)"
    by (simp add: concat_map_singleton)
  also have "\<dots> = four_steps sosfilt self X"
    unfolding eq by (rule four_steps_map [symmetric])
  finally show ?thesis
    using ok by (simp add: filt_cases)
qed

section \<open>Configuration and results directory: lemmas\<close>

lemma make_results_directory_not_exists:
  "make_results_directory fs p \<noteq> Inl FileExistsError"
  by (simp add: make_results_directory_def mkdir_def iterdir_def split: sum.split)

lemma write_file_not_exists: "write_file fs q c \<noteq> Inl FileExistsError"
  by (simp add: write_file_def)

lemma make_results_directory_nonempty:
  assumes "is_dir fs p" and "iterdir fs p = Inr entries" and "entries \<noteq> []"
  shows "make_results_directory fs p = Inl (ValueError ''Non-empty results directory.'')"
  using assms by (auto simp add: make_results_directory_def mkdir_def is_dir_def exists_def)

lemma check_save_config_nonempty:
  assumes "is_dir (files w) (joinpath (Path (results_parent_path config)) (name config))"
    and "iterdir (files w) (joinpath (Path (results_parent_path config)) (name config)) = Inr entries"
    and "entries \<noteq> []"
  shows "check_save_config config w =
           (Inl (ValueError ''Non-empty results directory.''),
            config\<lparr>results_path := Some (joinpath (Path (results_parent_path config)) (name config))\<rparr>, w)"
  by (simp add: check_save_config_def Let_def make_results_directory_nonempty [OF assms])

lemma check_save_config_never_FileExistsError:
  "fst (check_save_config config w) \<noteq> Inl FileExistsError"
proof -
  let ?p = "joinpath (Path (results_parent_path config)) (name config)"
  show ?thesis
  proof (cases "make_results_directory (files w) ?p")
    case (Inl e)
    then show ?thesis
      using make_results_directory_not_exists [of "files w" ?p]
      by (simp add: check_save_config_def Let_def)
  next
    case (Inr fs1)
    then show ?thesis
      using write_file_not_exists
      by (auto simp add: check_save_config_def Let_def split: sum.split)
  qed
qed



lemma example_results_path:
  "joinpath (Path (results_parent_path example_config)) (name example_config) = [''results'', ''run'']"
  by (simp add: example_config_def joinpath_def Path_def)

section \<open>Fold assignment: lemmas\<close>








lemma Data_init_example: "Data_init example_libs example_saved_config = Inr example_data"
  by (simp add: Data_init_def SignalFilter_init_def half_overflows_def example_libs_def example_lib_def
      example_saved_config_def example_config_def example_data_def lower_def lower_char_def)



section \<open>Datasets and inference: lemmas\<close>

lemma interleave_one_open: "interleave pending [Some xs] = xs @ interleave pending [None]"
  by (induction xs) simp_all

lemma interleave_one: "interleave pending [None] = concat pending"
  by (induction pending) (simp_all add: interleave_one_open)


lemma collect_Inr_iff: "collect rs = Inr ys \<longleftrightarrow> rs = map Inr ys"
proof (induction rs arbitrary: ys)
  case Nil
  then show ?case by auto
next
  case (Cons r rs)
  show ?case
  proof (cases r)
    case (Inl e)
    then show ?thesis by (cases ys) auto
  next
    case (Inr v)
    then show ?thesis
      using Cons [of "tl ys"] by (cases ys; cases "collect rs") auto
  qed
qed

lemma collect_map_Inr:
  assumes "collect (map f xs) = Inr ys"
  shows "length ys = length xs" and "i < length xs \<Longrightarrow> f (xs ! i) = Inr (ys ! i)"
proof -
  have eq: "map f xs = map Inr ys"
    using assms by (simp add: collect_Inr_iff)
  then show "length ys = length xs"
    by (metis length_map)
  show "f (xs ! i) = Inr (ys ! i)" if "i < length xs"
    using eq that by (metis length_map nth_map)
qed







lemma preprocess_ok:
  assumes "list_all (record_ok (Data_filter self)) X"
  shows "preprocess libs self (X, y) = Inr (map (preprocess_record libs self) X, y)"
  using assms by (simp add: preprocess_def filt_cases preprocess_record_def)

lemma decode_example:
  "decode_test (example_record i v t) = Inr (example_wave v)"
  "decode_train (example_record i v (Some l)) = Inr (example_wave v, real_of_int l)"
  by (simp_all add: decode_test_def decode_train_def reshape_wave_def example_record_def
      example_wave_def upt_rec)

lemma example_wave_ok: "record_ok (Data_filter example_data) (example_wave v)"
  by (intro record_ok_shape) (simp_all add: example_data_def example_wave_def)

lemma example_file_names:
  "Data_test_files example_data =
     [''data/test0.tfrecords'', ''data/test1.tfrecords'', ''data/test2.tfrecords'',
      ''data/test3.tfrecords'', ''data/test4.tfrecords'', ''data/test5.tfrecords'',
      ''data/test6.tfrecords'', ''data/test7.tfrecords'', ''data/test8.tfrecords'',
      ''data/test9.tfrecords'']"
  "Data_train_files example_data ! 0 = ''data/train0.tfrecords''"
  "Data_train_files example_data ! Suc 0 = ''data/train1.tfrecords''"
  "length (Data_train_files example_data) = 20"
  "Data_train_files example_data \<noteq> []"
  by (simp_all add: example_data_def upt_rec str_nat.simps)

lemma example_paths:
  "Path ''data/test0.tfrecords'' = [''data'', ''test0.tfrecords'']"
  "Path ''data/test1.tfrecords'' = [''data'', ''test1.tfrecords'']"
  "Path ''data/test2.tfrecords'' = [''data'', ''test2.tfrecords'']"
  "Path ''data/test3.tfrecords'' = [''data'', ''test3.tfrecords'']"
  "Path ''data/test4.tfrecords'' = [''data'', ''test4.tfrecords'']"
  "Path ''data/test5.tfrecords'' = [''data'', ''test5.tfrecords'']"
  "Path ''data/test6.tfrecords'' = [''data'', ''test6.tfrecords'']"
  "Path ''data/test7.tfrecords'' = [''data'', ''test7.tfrecords'']"
  "Path ''data/test8.tfrecords'' = [''data'', ''test8.tfrecords'']"
  "Path ''data/test9.tfrecords'' = [''data'', ''test9.tfrecords'']"
  "Path ''data/train0.tfrecords'' = [''data'', ''train0.tfrecords'']"
  "Path ''data/train1.tfrecords'' = [''data'', ''train1.tfrecords'']"
  "Path ''data/sample_submission.csv'' = [''data'', ''sample_submission.csv'']"
  "Path ''results/run'' = [''results'', ''run'']"
  by (simp_all add: Path_def)

lemma example_test_records:
  "TFRecordDataset (files example_world) (Data_test_files example_data) (Suc 0) =
     Inr [example_record ''t1'' 5 None, example_record ''t2'' 6 None]"
  by (simp add: TFRecordDataset_def example_file_names read_records_def example_paths
      example_world_def interleave_one)


lemma example_settings:
  "batch_size (Data_config example_data) = 50"
  "autotune example_libs = 2"
  by (simp_all add: example_data_def example_saved_config_def example_config_def example_libs_def)

lemma example_test_dataset:
  "get_dataset example_libs example_data (files example_world) False False None =
     Inr (Inr [([preprocess_record example_libs example_data (example_wave 5),
                 preprocess_record example_libs example_data (example_wave 6)], None)])"
  by (simp add: get_dataset_def Let_def example_test_records decode_example example_settings
      batches.simps preprocess_ok example_wave_ok)


lemma load_model_error: "load_model fs p = Inl e \<Longrightarrow> e = OSError"
  by (auto simp add: load_model_def split: option.splits node.splits content.splits)

lemma collect_Inl:
  assumes "x \<in> set xs" and "f x = Inl e" and "\<And>y e'. f y = Inl e' \<Longrightarrow> e' = e"
  shows "collect (map f xs) = Inl e"
  using assms(1)
proof (induction xs)
  case Nil
  then show ?case by simp
next
  case (Cons y ys)
  show ?case
  proof (cases "f y")
    case (Inl e')
    then show ?thesis using assms(3) by simp
  next
    case (Inr v)
    then have "x \<in> set ys"
      using Cons.prems assms(2) by auto
    then show ?thesis
      using Cons.IH Inr by simp
  qed
qed

lemma make_inference_success:
  assumes "make_inference libs config models w = (Inr df, w')"
  shows "\<exists>data test_data ids.
           Data_init libs config = Inr data
           \<and> get_dataset libs data (files w) False False None = Inr (Inr test_data)
           \<and> map_of (files w) (Path (data_path config @ ''sample_submission.csv'')) =
               Some (File (SampleCsv ids))
           \<and> df = zip ids (mean_predictions
                   (map (\<lambda>pair. fold_predictions libs test_data (snd pair))
                      (zip (configured_folds config) models)))"
proof -
  obtain data where data: "Data_init libs config = Inr data"
    using assms by (cases "Data_init libs config") (simp_all add: make_inference_def)
  obtain lazy where lazy: "get_dataset libs data (files w) False False None = Inr lazy"
    using assms data
    by (cases "get_dataset libs data (files w) False False None")
      (simp_all add: make_inference_def)
  have pairs: "zip (configured_folds config) models \<noteq> []"
    using assms data lazy by (auto simp add: make_inference_def Let_def)
  obtain test_data where test: "lazy = Inr test_data"
    using assms data lazy pairs by (cases lazy) (simp_all add: make_inference_def Let_def)
  have nonempty: "test_data \<noteq> []"
    using assms data lazy pairs test by (auto simp add: make_inference_def Let_def)
  show ?thesis
    using assms data lazy pairs test nonempty
    by (auto simp add: make_inference_def Let_def fold_predictions_def
        split: option.splits node.splits content.splits if_splits sum.splits)
qed

lemma map_snd_zip_same:
  "length xs = length ys \<Longrightarrow> map (\<lambda>pair. f (snd pair)) (zip xs ys) = map f ys"
  by (induction xs ys rule: list_induct2) simp_all

lemma example_configured_folds: "configured_folds example_saved_config = [0, 1]"
  by (simp add: configured_folds_def example_saved_config_def)

lemma str_int_examples: "str_int 0 = ''0''" "str_int 1 = ''1''" "str_int 2 = ''2''"
  by (simp_all add: str_int_def str_nat.simps)

lemma example_checkpoints:
  "map (\<lambda>k. load_model (files example_world)
              (joinpath [''results'', ''run''] (''checkpoint_fold'' @ str_int k))) [0, 1, 2] =
     [Inr (1 / 4), Inr (3 / 4), Inr (1 / 2)]"
  by (simp add: str_int_examples joinpath_def Path_def load_model_def example_world_def)

lemma example_saved_paths:
  "data_path example_saved_config = ''data/''"
  "results_path example_saved_config = Some [''results'', ''run'']"
  by (simp_all add: example_saved_config_def example_config_def)

lemma example_make_inference:
  "fst (make_inference example_libs example_saved_config [1 / 4, 3 / 4] example_world) =
     Inr [(''t1'', 1 / 2), (''t2'', 1 / 2)]"
proof -
  have "[0..<2] = [0, Suc 0]"
    by (simp add: upt_rec)
  then have mean: "mean_predictions [[1 / 4, 1 / 4], [3 / 4, 3 / 4]] = [1 / 2, 1 / 2]"
    by (simp add: mean_predictions_def)
  have sample: "map_of (files example_world) [''data'', ''sample_submission.csv''] =
      Some (File (SampleCsv [''t1'', ''t2'']))"
    by (simp add: example_world_def)
  have wr: "\<exists>fs. write_file (files example_world) [''results'', ''run'', ''submission.csv''] c = Inr fs"
    for c :: "real content"
    by (simp add: write_file_def is_dir_def example_world_def)
  have model: "model_predict example_libs = (\<lambda>model X. model)"
    by (simp add: example_libs_def)
  show ?thesis
    using wr [of "SubmissionCsv [(''t1'', 1 / 2), (''t2'', 1 / 2)]"]
    by (auto simp add: make_inference_def Let_def Data_init_example example_configured_folds
        example_test_dataset model mean sample example_saved_paths example_paths
        joinpath_def Path_def)
qed

lemma example_load_results:
  "fst (load_results_make_inference example_libs ''results/run'' example_world) =
     Inr (Some [(''t1'', 1 / 2), (''t2'', 1 / 2)])"
proof -
  have p: "Path ''results/run'' = [''results'', ''run'']"
    by (simp add: Path_def)
  have e: "exists (files example_world) [''results'', ''run'']"
    by (simp add: exists_def example_world_def)
  have c: "map_of (files example_world) (joinpath [''results'', ''run''] ''config.pkl'') =
      Some (File (Pickle example_saved_config))"
    by (simp add: joinpath_def Path_def example_world_def)
  have m: "load_model (files example_world) (joinpath [''results'', ''run''] ''checkpoint_fold0'') =
      Inr (1 / 4)"
    "load_model (files example_world) (joinpath [''results'', ''run''] ''checkpoint_fold1'') =
      Inr (3 / 4)"
    by (simp_all add: joinpath_def Path_def load_model_def example_world_def)
  show ?thesis
    using example_make_inference
    by (auto simp add: load_results_make_inference_def Let_def p e c m example_configured_folds
        str_int_examples split: prod.split sum.split)
qed


section \<open>SignalFilter: the claims\<close>

lemma lower_examples:
  "lower ''bandpass'' = ''bandpass''" "lower ''HighPass'' = ''highpass''"
  "lower ''highpass'' = ''highpass''" "lower ''lowpass'' = ''lowpass''"
  by (simp_all add: lower_def lower_char_def)

lemma init_bandpass:
  assumes "lower ftype = ''bandpass''" and "\<not> half_overflows fs" and "fs \<noteq> 0"
    and "butter lib order (Band lo hi) ftype fs = Inr sos"
  shows "SignalFilter_init lib sc ftype order lo (Some hi) fs =
           Inr \<lparr>self_scaling = sc, self_filter_window = WArray (tukey lib 4096 (1 / 10)),
                self_filter_norm = np_sqrt lib ((hi - lo) / (real_of_int fs / 2)),
                self_filter = sos\<rparr>"
  using assms by (simp add: SignalFilter_init_def)

lemma init_highpass:
  assumes "lower ftype = ''highpass''"
    and "butter lib order (Single lo) ftype fs = Inr sos"
  shows "SignalFilter_init lib sc ftype order lo hi_opt fs =
           Inr \<lparr>self_scaling = sc, self_filter_window = WScalar 1, self_filter_norm = 1,
                self_filter = sos\<rparr>"
  using assms by (simp add: SignalFilter_init_def)



lemma example_design:
  "butter taper_lib 8 (Band 256 512) ''bandpass'' 2048 = Inr 8"
  "butter taper_lib 5 (Single 20) ''highpass'' 2048 = Inr 5"
  "butter taper_lib 5 (Single 20) ''HighPass'' 2048 = Inl (ValueError ''invalid bandtype for filter'')"
  "butter taper_lib 8 (Band 25 1000) ''bandpass'' 2048 = Inr 8"
  "np_sqrt taper_lib = sqrt"
  "length (tukey taper_lib 4096 (1 / 10)) = 4096"
  by (simp_all add: taper_lib_def example_butter_def example_tukey_def)

lemma example_rates:
  "\<not> half_overflows 2048" "\<not> half_overflows 0" "half_overflows huge_rate" "huge_rate \<noteq> 0"
  "1000 < real_of_int huge_rate / 2"
  by (simp_all add: half_overflows_def huge_rate_def)






text \<open>
  C3. Filtering a batch gives what filtering each record as a batch of one and
  concatenating the results gives, an exception included: the equality is exact, for any
  sample arithmetic and any one-dimensional \<open>sosfilt\<close>.
\<close>

theorem filt_batching:
  "filt sosfilt self X =
     (case collect (map (\<lambda>record. filt sosfilt self [record]) X) of
        Inl e \<Rightarrow> Inl e
      | Inr Ys \<Rightarrow> Inr (concat Ys))"
proof -
  have "collect (map (\<lambda>record. filt sosfilt self [record]) X) =
      (if list_all (record_ok self) X then Inr (map (\<lambda>record. [record_val sosfilt self record]) X)
       else Inl bc_error)"
    by (rule collect_cases) (simp add: filt_cases)
  then show ?thesis
    by (simp add: filt_cases concat_map_singleton)
qed

theorem filt_batching_witness:
  "filt example_sosfilt example_tapered [[[1, 2], [3, 4], [5, 6]], [[2, 0], [0, 2], [2, 2]]] =
     Inr [[[1 / 2, 3 / 2], [9 / 4, 15 / 4], [25 / 4, 35 / 4]],
          [[1, - 1], [0, 3], [5 / 2, 5 / 2]]]
   \<and> filt example_sosfilt example_tapered [[[1, 2], [3, 4], [5, 6]]] =
     Inr [[[1 / 2, 3 / 2], [9 / 4, 15 / 4], [25 / 4, 35 / 4]]]
   \<and> filt example_sosfilt example_tapered [[[2, 0], [0, 2], [2, 2]]] =
     Inr [[[1, - 1], [0, 3], [5 / 2, 5 / 2]]]"
proof -
  have 1: "filt example_sosfilt example_tapered [[[1, 2], [3, 4], [5, 6]]] =
     Inr [[[1 / 2, 3 / 2], [9 / 4, 15 / 4], [25 / 4, 35 / 4]]]"
    by (simp add: filt_def example_tapered_def example_sosfilt_def broadcast_def)
  have 2: "filt example_sosfilt example_tapered [[[2, 0], [0, 2], [2, 2]]] =
     Inr [[[1, - 1], [0, 3], [5 / 2, 5 / 2]]]"
    by (simp add: filt_def example_tapered_def example_sosfilt_def broadcast_def)
  show ?thesis
    using filt_batching [of example_sosfilt example_tapered
        "[[[1, 2], [3, 4], [5, 6]], [[2, 0], [0, 2], [2, 2]]]"]
    by (simp add: 1 2)
qed

text \<open>
  C4. A highpass that \<open>butter\<close> designs is constructed with the normalization constant 1,
  and a bandpass that \<open>butter\<close> designs (upper cutoff given, sampling rate not 0 and its
  half within the floats) with \<open>np.sqrt((f_hi - f_lo) / (sampling_rate / 2))\<close>, which is
  the square root of that quotient for cutoffs \<open>f_lo < f_hi\<close> and a positive sampling
  rate, \<open>np.sqrt\<close> being the square root on numbers that are not negative. \<open>filt\<close>
  multiplies by this constant as its last step.
\<close>

theorem filter_norm_value:
  fixes lib :: "'design signal_lib" and design_sosfilt :: "'design \<Rightarrow> real list \<Rightarrow> real list"
  shows
    "(lower ftype = ''highpass'' \<and> butter lib order (Single lo) ftype fs = Inr sos \<longrightarrow>
        (\<exists>constructed.
           SignalFilter_init lib sc ftype order lo hi_opt fs = Inr constructed
           \<and> self_filter_norm constructed = 1
           \<and> (shape_ok constructed X \<longrightarrow>
                filt design_sosfilt constructed X =
                  Inr (step_normalize 1
                         (step_filter design_sosfilt (self_filter constructed)
                            (step_taper (self_filter_window constructed)
                               (step_scale (self_scaling constructed) X)))))))
     \<and> (lower ftype = ''bandpass'' \<and> hi_opt = Some hi \<and> \<not> half_overflows fs \<and> fs \<noteq> 0
         \<and> butter lib order (Band lo hi) ftype fs = Inr sos \<longrightarrow>
        (\<exists>constructed.
           SignalFilter_init lib sc ftype order lo hi_opt fs = Inr constructed
           \<and> self_filter_norm constructed = np_sqrt lib ((hi - lo) / (real_of_int fs / 2))
           \<and> ((\<forall>x\<ge>0. np_sqrt lib x = sqrt x) \<and> lo < hi \<and> 0 < fs \<longrightarrow>
                self_filter_norm constructed = sqrt ((hi - lo) / (real_of_int fs / 2)))
           \<and> (shape_ok constructed X \<longrightarrow>
                filt design_sosfilt constructed X =
                  Inr (step_normalize (np_sqrt lib ((hi - lo) / (real_of_int fs / 2)))
                         (step_filter design_sosfilt (self_filter constructed)
                            (step_taper (self_filter_window constructed)
                               (step_scale (self_scaling constructed) X)))))))"
proof (intro conjI impI)
  assume a: "lower ftype = ''highpass'' \<and> butter lib order (Single lo) ftype fs = Inr sos"
  define constructed where "constructed =
      \<lparr>self_scaling = sc, self_filter_window = WScalar (1 :: real), self_filter_norm = 1 :: real,
       self_filter = sos\<rparr>"
  have "SignalFilter_init lib sc ftype order lo hi_opt fs = Inr constructed"
    using a init_highpass [of ftype lib order lo fs sos sc hi_opt] by (simp add: constructed_def)
  moreover have "self_filter_norm constructed = 1"
    by (simp add: constructed_def)
  moreover have "filt design_sosfilt constructed X =
      Inr (step_normalize 1
             (step_filter design_sosfilt (self_filter constructed)
                (step_taper (self_filter_window constructed)
                   (step_scale (self_scaling constructed) X))))"
    if "shape_ok constructed X"
    using filt_refines [OF that, of design_sosfilt] by (simp add: four_steps_def constructed_def)
  ultimately show "\<exists>constructed.
      SignalFilter_init lib sc ftype order lo hi_opt fs = Inr constructed
      \<and> self_filter_norm constructed = 1
      \<and> (shape_ok constructed X \<longrightarrow>
           filt design_sosfilt constructed X =
             Inr (step_normalize 1
                    (step_filter design_sosfilt (self_filter constructed)
                       (step_taper (self_filter_window constructed)
                          (step_scale (self_scaling constructed) X)))))"
    by blast
next
  assume a: "lower ftype = ''bandpass'' \<and> hi_opt = Some hi \<and> \<not> half_overflows fs \<and> fs \<noteq> 0
      \<and> butter lib order (Band lo hi) ftype fs = Inr sos"
  define constructed where "constructed =
      \<lparr>self_scaling = sc, self_filter_window = WArray (tukey lib 4096 (1 / 10)),
       self_filter_norm = np_sqrt lib ((hi - lo) / (real_of_int fs / 2)), self_filter = sos\<rparr>"
  have "SignalFilter_init lib sc ftype order lo hi_opt fs = Inr constructed"
    using a init_bandpass [of ftype fs lib order lo hi sos sc] by (simp add: constructed_def)
  moreover have n: "self_filter_norm constructed = np_sqrt lib ((hi - lo) / (real_of_int fs / 2))"
    by (simp add: constructed_def)
  moreover have "self_filter_norm constructed = sqrt ((hi - lo) / (real_of_int fs / 2))"
    if "(\<forall>x\<ge>0. np_sqrt lib x = sqrt x) \<and> lo < hi \<and> 0 < fs"
  proof -
    have "0 \<le> (hi - lo) / (real_of_int fs / 2)"
      using that by simp
    then show ?thesis
      using that n by simp
  qed
  moreover have "filt design_sosfilt constructed X =
      Inr (step_normalize (np_sqrt lib ((hi - lo) / (real_of_int fs / 2)))
             (step_filter design_sosfilt (self_filter constructed)
                (step_taper (self_filter_window constructed)
                   (step_scale (self_scaling constructed) X))))"
    if "shape_ok constructed X"
    using filt_refines [OF that, of design_sosfilt] by (simp add: four_steps_def constructed_def)
  ultimately show "\<exists>constructed.
      SignalFilter_init lib sc ftype order lo hi_opt fs = Inr constructed
      \<and> self_filter_norm constructed = np_sqrt lib ((hi - lo) / (real_of_int fs / 2))
      \<and> ((\<forall>x\<ge>0. np_sqrt lib x = sqrt x) \<and> lo < hi \<and> 0 < fs \<longrightarrow>
           self_filter_norm constructed = sqrt ((hi - lo) / (real_of_int fs / 2)))
      \<and> (shape_ok constructed X \<longrightarrow>
           filt design_sosfilt constructed X =
             Inr (step_normalize (np_sqrt lib ((hi - lo) / (real_of_int fs / 2)))
                    (step_filter design_sosfilt (self_filter constructed)
                       (step_taper (self_filter_window constructed)
                          (step_scale (self_scaling constructed) X)))))"
    by blast
qed

text \<open>
  The highpass of the stand-in library at 20 Hz has the constant 1, and its bandpass from
  256 to 512 at 2048 samples a second has the constant \<open>sqrt (256 / 1024) = 1/2\<close>; the
  last factor of what \<open>filt\<close> returns is this constant.
\<close>

theorem filter_norm_value_witness:
  "(\<exists>constructed.
      SignalFilter_init taper_lib (PyFloat 2) ''highpass'' 5 20 None 2048 = Inr constructed
      \<and> self_filter_norm constructed = 1
      \<and> filt gain_difference constructed [[[1, 2], [3, 5]]] =
          Inr (step_normalize 1 [[[10, 10], [30, 20]]]))
   \<and> (\<exists>constructed.
      SignalFilter_init taper_lib (PyFloat 2) ''bandpass'' 8 256 (Some 512) 2048 = Inr constructed
      \<and> self_filter_norm constructed = sqrt ((512 - 256) / (2048 / 2))
      \<and> self_filter_norm constructed = 1 / 2
      \<and> filt gain_difference constructed [example_wave 1] =
          Inr (step_normalize (1 / 2)
                 (step_filter gain_difference 8
                    (step_taper (WArray (example_tukey 4096 (1 / 10)))
                       (step_scale (PyFloat 2) [example_wave 1])))))"
proof -
  have u: "[0..<2] = [0, Suc 0]"
    by (simp add: upt_rec)
  obtain highpass where h:
    "SignalFilter_init taper_lib (PyFloat 2) ''highpass'' 5 20 None 2048 = Inr highpass"
    "self_filter_norm highpass = 1"
    "shape_ok highpass [[[1, 2], [3, 5 :: real]]] \<longrightarrow>
       filt gain_difference highpass [[[1, 2], [3, 5]]] =
         Inr (step_normalize 1
                (step_filter gain_difference (self_filter highpass)
                   (step_taper (self_filter_window highpass)
                      (step_scale (self_scaling highpass) [[[1, 2], [3, 5]]]))))"
    using filter_norm_value [where ftype = "''highpass''" and hi_opt = None
        and fs = 2048 and lib = taper_lib and order = 5 and lo = 20 and sos = 5
        and sc = "PyFloat 2" and X = "[[[1, 2], [3, 5]]]"
        and design_sosfilt = gain_difference, THEN conjunct1]
    by (auto simp add: lower_examples example_design)
  have hv: "highpass = \<lparr>self_scaling = PyFloat 2, self_filter_window = WScalar 1,
      self_filter_norm = 1, self_filter = 5\<rparr>"
    using h(1) by (simp add: SignalFilter_init_def lower_examples example_design)
  have 1: "filt gain_difference highpass [[[1, 2], [3, 5]]] =
      Inr (step_normalize 1 [[[10, 10], [30, 20]]])"
    using h(3)
    by (simp add: hv shape_ok_def u step_filter_def step_taper_def step_scale_def
        gain_difference_def)
  obtain bandpass where b:
    "SignalFilter_init taper_lib (PyFloat 2) ''bandpass'' 8 256 (Some 512) 2048 = Inr bandpass"
    "self_filter_norm bandpass = sqrt ((512 - 256) / (2048 / 2))"
    "shape_ok bandpass [example_wave 1] \<longrightarrow>
       filt gain_difference bandpass [example_wave 1] =
         Inr (step_normalize (sqrt ((512 - 256) / (2048 / 2)))
                (step_filter gain_difference (self_filter bandpass)
                   (step_taper (self_filter_window bandpass)
                      (step_scale (self_scaling bandpass) [example_wave 1]))))"
    using filter_norm_value [where ftype = "''bandpass''" and hi_opt = "Some 512" and hi = 512
        and fs = 2048 and lib = taper_lib and order = 8 and lo = 256 and sos = 8
        and sc = "PyFloat 2" and X = "[example_wave 1]"
        and design_sosfilt = gain_difference, THEN conjunct2]
    by (auto simp add: lower_examples example_rates example_design)
  have bv: "bandpass = \<lparr>self_scaling = PyFloat 2,
      self_filter_window = WArray (example_tukey 4096 (1 / 10)),
      self_filter_norm = sqrt ((512 - 256) / (2048 / 2)), self_filter = 8\<rparr>"
    using b(1)
    by (simp add: SignalFilter_init_def lower_examples example_rates example_design
        taper_lib_def example_butter_def)
  have half: "sqrt ((512 - 256) / (2048 / 2)) = 1 / 2"
    by (simp add: real_sqrt_divide)
  have 2: "filt gain_difference bandpass [example_wave 1] =
      Inr (step_normalize (1 / 2)
             (step_filter gain_difference 8
                (step_taper (WArray (example_tukey 4096 (1 / 10)))
                   (step_scale (PyFloat 2) [example_wave 1]))))"
    using b(3) unfolding half
    by (simp add: bv shape_ok_def example_wave_def example_tukey_def)
  show ?thesis
    using h(1,2) 1 b(1,2) 2 half by auto
qed




section \<open>Configuration and results directory: the claims\<close>




text \<open>
  C10. When the results directory exists and has an entry, \<open>check_save_config\<close> raises
  ValueError, never FileExistsError, so \<open>train_K_folds_make_inference\<close> does not take the
  branch of its handler: the ValueError reaches the caller, with the files and the log
  as they were (nothing written, no fold trained); only \<open>results_path\<close> has been assigned.
\<close>

theorem nonempty_results_directory_raises:
  assumes "is_dir (files w) (joinpath (Path (results_parent_path config)) (name config))"
    and "iterdir (files w) (joinpath (Path (results_parent_path config)) (name config)) = Inr entries"
    and "entries \<noteq> []"
  shows "train_K_folds_make_inference libs config w =
           (Inl (ValueError ''Non-empty results directory.''),
            config\<lparr>results_path := Some (joinpath (Path (results_parent_path config)) (name config))\<rparr>, w)
         \<and> fst (check_save_config config w) \<noteq> Inl FileExistsError"
  using check_save_config_nonempty [OF assms] check_save_config_never_FileExistsError [of config w]
  by (simp add: train_K_folds_make_inference_def)

theorem nonempty_results_directory_raises_witness:
  "is_dir (files example_used_world) [''results'', ''run'']
   \<and> iterdir (files example_used_world) [''results'', ''run''] =
       Inr [[''results'', ''run'', ''config.pkl'']]
   \<and> train_K_folds_make_inference example_libs example_config example_used_world =
       (Inl (ValueError ''Non-empty results directory.''),
        example_config\<lparr>results_path := Some [''results'', ''run'']\<rparr>, example_used_world)"
proof -
  have d: "is_dir (files example_used_world)
      (joinpath (Path (results_parent_path example_config)) (name example_config))"
    by (simp add: example_results_path is_dir_def example_used_world_def)
  have i: "iterdir (files example_used_world)
      (joinpath (Path (results_parent_path example_config)) (name example_config)) =
      Inr [[''results'', ''run'', ''config.pkl'']]"
    by (simp add: example_results_path iterdir_def is_dir_def example_used_world_def)
  have n: "[[''results'', ''run'', ''config.pkl'']] \<noteq> []"
    by simp
  show ?thesis
    using nonempty_results_directory_raises [OF d i n, of example_libs] d i
    by (simp add: example_results_path)
qed

section \<open>Fold assignment: the claim\<close>



text \<open>
  The claim as first stated fails: with five folds, twenty shards and the seed \<open>-1\<close> there
  is no fold assignment, the seeded shuffle raising ValueError.
\<close>

theorem negative_seed_counterexample:
  "(2 :: int) \<le> K_fold (example_config\<lparr>seed := - 1\<rparr>)
   \<and> K_fold (example_config\<lparr>seed := - 1\<rparr>) \<le> int (length (Data_train_files example_data))
   \<and> fold_assignment example_libs (example_config\<lparr>seed := - 1\<rparr>) example_data =
       Inl (ValueError ''Seed must be between 0 and 2**32 - 1'')"
  by (simp add: fold_assignment_def KFold_split_def example_config_def example_data_def)


section \<open>Datasets and inference: the claims\<close>




text \<open>
  C7, as amended. \<open>load_results_make_inference\<close> loads one checkpoint for each fold of the
  configured list. When the saved model of a configured fold is missing, the error of
  \<open>load_model\<close> is raised and nothing is written. When a submission is returned, every
  configured fold has given its model, and the submission is the average, sample by
  sample, of the predictions of exactly these models over the test dataset.
\<close>

theorem resumable_inference_uses_configured_folds:
  "(\<forall>config k.
      exists (files w) (Path rp)
      \<and> map_of (files w) (joinpath (Path rp) ''config.pkl'') = Some (File (Pickle config))
      \<and> k \<in> set (configured_folds config)
      \<and> isl (load_model (files w) (joinpath (Path rp) (''checkpoint_fold'' @ str_int k)))
      \<longrightarrow> load_results_make_inference libs rp w = (Inl OSError, w))
   \<and> (\<forall>df w'.
      load_results_make_inference libs rp w = (Inr (Some df), w')
      \<longrightarrow> (\<exists>config models data test_data ids.
            map_of (files w) (joinpath (Path rp) ''config.pkl'') = Some (File (Pickle config))
            \<and> map (\<lambda>k. load_model (files w) (joinpath (Path rp) (''checkpoint_fold'' @ str_int k)))
                  (configured_folds config) = map Inr models
            \<and> Data_init libs config = Inr data
            \<and> get_dataset libs data (files w) False False None = Inr (Inr test_data)
            \<and> map_of (files w) (Path (data_path config @ ''sample_submission.csv'')) =
                Some (File (SampleCsv ids))
            \<and> df = zip ids (mean_predictions (map (fold_predictions libs test_data) models))))"
proof (intro conjI allI impI)
  fix config k
  assume a: "exists (files w) (Path rp)
      \<and> map_of (files w) (joinpath (Path rp) ''config.pkl'') = Some (File (Pickle config))
      \<and> k \<in> set (configured_folds config)
      \<and> isl (load_model (files w) (joinpath (Path rp) (''checkpoint_fold'' @ str_int k)))"
  then obtain e where "load_model (files w) (joinpath (Path rp) (''checkpoint_fold'' @ str_int k)) = Inl e"
    by (auto simp add: isl_def)
  then have k: "load_model (files w) (joinpath (Path rp) (''checkpoint_fold'' @ str_int k)) = Inl OSError"
    using load_model_error by blast
  have "collect (map (\<lambda>k. load_model (files w) (joinpath (Path rp) (''checkpoint_fold'' @ str_int k)))
          (configured_folds config)) = Inl OSError"
    using a k load_model_error by (intro collect_Inl [where x = k]) auto
  then show "load_results_make_inference libs rp w = (Inl OSError, w)"
    using a by (simp add: load_results_make_inference_def Let_def)
next
  fix df w'
  assume r: "load_results_make_inference libs rp w = (Inr (Some df), w')"
  then have ex: "exists (files w) (Path rp)"
    by (auto simp add: load_results_make_inference_def Let_def split: if_splits)
  obtain config where config:
    "map_of (files w) (joinpath (Path rp) ''config.pkl'') = Some (File (Pickle config))"
    using r ex
    by (auto simp add: load_results_make_inference_def Let_def
        split: option.splits node.splits content.splits)
  obtain models where models:
    "collect (map (\<lambda>k. load_model (files w) (joinpath (Path rp) (''checkpoint_fold'' @ str_int k)))
          (configured_folds config)) = Inr models"
    using r ex config
    by (auto simp add: load_results_make_inference_def Let_def split: sum.splits)
  have inf: "make_inference libs config models w = (Inr df, w')"
    using r ex config models
    by (auto simp add: load_results_make_inference_def Let_def split: sum.splits prod.splits)
  have len: "length (configured_folds config) = length models"
    using collect_map_Inr(1) [OF models] by simp
  obtain data test_data ids where
    "Data_init libs config = Inr data"
    "get_dataset libs data (files w) False False None = Inr (Inr test_data)"
    "map_of (files w) (Path (data_path config @ ''sample_submission.csv'')) =
       Some (File (SampleCsv ids))"
    "df = zip ids (mean_predictions
           (map (\<lambda>pair. fold_predictions libs test_data (snd pair))
              (zip (configured_folds config) models)))"
    using make_inference_success [OF inf] by blast
  then show "\<exists>config models data test_data ids.
            map_of (files w) (joinpath (Path rp) ''config.pkl'') = Some (File (Pickle config))
            \<and> map (\<lambda>k. load_model (files w) (joinpath (Path rp) (''checkpoint_fold'' @ str_int k)))
                  (configured_folds config) = map Inr models
            \<and> Data_init libs config = Inr data
            \<and> get_dataset libs data (files w) False False None = Inr (Inr test_data)
            \<and> map_of (files w) (Path (data_path config @ ''sample_submission.csv'')) =
                Some (File (SampleCsv ids))
            \<and> df = zip ids (mean_predictions (map (fold_predictions libs test_data) models))"
    using config models len by (auto simp add: collect_Inr_iff map_snd_zip_same)
qed

theorem resumable_inference_uses_configured_folds_witness:
  "load_results_make_inference example_libs ''results/run'' example_incomplete_world =
     (Inl OSError, example_incomplete_world)
   \<and> (\<exists>w'. load_results_make_inference example_libs ''results/run'' example_world =
         (Inr (Some [(''t1'', 1 / 2), (''t2'', 1 / 2)]), w'))
   \<and> (\<exists>test_data.
         get_dataset example_libs example_data (files example_world) False False None =
           Inr (Inr test_data)
         \<and> [(''t1'', 1 / 2), (''t2'', 1 / 2)] =
             zip [''t1'', ''t2'']
               (mean_predictions (map (fold_predictions example_libs test_data) [1 / 4, 3 / 4])))"
proof -
  have p: "Path ''results/run'' = [''results'', ''run'']"
    by (simp add: Path_def)
  have e: "exists (files example_incomplete_world) (Path ''results/run'')"
    by (simp add: p exists_def example_incomplete_world_def example_world_def)
  have c: "map_of (files example_incomplete_world) (joinpath (Path ''results/run'') ''config.pkl'') =
      Some (File (Pickle example_saved_config))"
    by (simp add: p joinpath_def Path_def example_incomplete_world_def example_world_def)
  have k: "1 \<in> set (configured_folds example_saved_config)"
    by (simp add: example_configured_folds)
  have l: "isl (load_model (files example_incomplete_world)
      (joinpath (Path ''results/run'') (''checkpoint_fold'' @ str_int 1)))"
    by (simp add: p str_int_examples joinpath_def Path_def load_model_def
        example_incomplete_world_def example_world_def)
  have first: "load_results_make_inference example_libs ''results/run'' example_incomplete_world =
     (Inl OSError, example_incomplete_world)"
    using resumable_inference_uses_configured_folds
      [of example_incomplete_world "''results/run''" example_libs] e c k l
    by blast
  obtain w' where r: "load_results_make_inference example_libs ''results/run'' example_world =
         (Inr (Some [(''t1'', 1 / 2), (''t2'', 1 / 2)]), w')"
    using example_load_results by (metis fst_conv surj_pair)
  obtain config models data test_data ids where
    "map_of (files example_world) (joinpath (Path ''results/run'') ''config.pkl'') =
       Some (File (Pickle config))"
    "map (\<lambda>k. load_model (files example_world)
            (joinpath (Path ''results/run'') (''checkpoint_fold'' @ str_int k)))
       (configured_folds config) = map Inr models"
    "Data_init example_libs config = Inr data"
    "get_dataset example_libs data (files example_world) False False None = Inr (Inr test_data)"
    "map_of (files example_world) (Path (data_path config @ ''sample_submission.csv'')) =
       Some (File (SampleCsv ids))"
    "[(''t1'', 1 / 2), (''t2'', 1 / 2)] =
       zip ids (mean_predictions (map (fold_predictions example_libs test_data) models))"
    using resumable_inference_uses_configured_folds
      [of example_world "''results/run''" example_libs] r
    by blast
  moreover have "map_of (files example_world) (joinpath (Path ''results/run'') ''config.pkl'') =
      Some (File (Pickle example_saved_config))"
    by (simp add: p joinpath_def Path_def example_world_def)
  moreover have "map_of (files example_world)
      (Path (data_path example_saved_config @ ''sample_submission.csv'')) =
      Some (File (SampleCsv [''t1'', ''t2'']))"
    by (simp add: example_saved_paths Path_def example_world_def)
  moreover have "map (\<lambda>k. load_model (files example_world)
            (joinpath (Path ''results/run'') (''checkpoint_fold'' @ str_int k)))
       (configured_folds example_saved_config) = map Inr [1 / 4, 3 / 4]"
    using example_checkpoints by (simp add: p example_configured_folds)
  ultimately have "\<exists>test_data.
         get_dataset example_libs example_data (files example_world) False False None =
           Inr (Inr test_data)
         \<and> [(''t1'', 1 / 2), (''t2'', 1 / 2)] =
             zip [''t1'', ''t2'']
               (mean_predictions (map (fold_predictions example_libs test_data) [1 / 4, 3 / 4]))"
    using Data_init_example by (auto simp add: map_eq_conv)
  then show ?thesis
    using first r by blast
qed

text \<open>
  The claim as first stated fails: the results directory holds three checkpoints, the
  configured fold list has two folds, and the call returns a submission without an
  error, averaged over the models of the two configured folds.
\<close>

theorem surplus_checkpoint_counterexample:
  "configured_folds example_saved_config = [0, 1]
   \<and> map_of (files example_world) (joinpath (Path ''results/run'') ''config.pkl'') =
       Some (File (Pickle example_saved_config))
   \<and> map (\<lambda>k. load_model (files example_world)
              (joinpath (Path ''results/run'') (''checkpoint_fold'' @ str_int k))) [0, 1, 2] =
       [Inr (1 / 4), Inr (3 / 4), Inr (1 / 2)]
   \<and> fst (load_results_make_inference example_libs ''results/run'' example_world) =
       Inr (Some [(''t1'', 1 / 2), (''t2'', 1 / 2)])"
proof -
  have p: "Path ''results/run'' = [''results'', ''run'']"
    by (simp add: Path_def)
  have c: "map_of (files example_world) (joinpath [''results'', ''run''] ''config.pkl'') =
      Some (File (Pickle example_saved_config))"
    by (simp add: joinpath_def Path_def example_world_def)
  show ?thesis
    unfolding p using example_configured_folds c example_checkpoints example_load_results
    by (intro conjI)
qed

end
